theory Spec2Isabelle
  imports Complex_Main
begin

section \<open>Fund portal: the component's state and its asynchronous operations\<close>

text \<open>
  The development embeds \<^verbatim>\<open>src/App.jsx\<close>: the React component \<^verbatim>\<open>App\<close>, its eight state
  variables, the asynchronous functions \<^verbatim>\<open>loadFundData\<close>, \<^verbatim>\<open>loadLPData\<close>,
  \<^verbatim>\<open>connectWallet\<close> and \<^verbatim>\<open>checkConnectedWallet\<close>, the wallet event listeners, the
  formatting helpers and the conditions under which each section is rendered.

  Modelling decisions:
  \<^item> A JavaScript Number is modelled by the rational it stands for. Every operation whose
    exact result has to be rounded to a Number (\<^verbatim>\<open>parseFloat\<close>, \<^verbatim>\<open>Number\<close>, \<^verbatim>\<open>-\<close>, \<^verbatim>\<open>*\<close>,
    \<^verbatim>\<open>/\<close>) goes through the rounding function \<open>fl\<close> of the platform, which is a parameter.
  \<^item> The library functions are modelled by what they compute: \<^verbatim>\<open>ethers.formatEther\<close> by
    the value of the decimal string it returns, \<^verbatim>\<open>Intl.NumberFormat\<close> by rounding to a
    fixed number of fraction digits and grouping, the date formatting of the locale by a
    parameter of the platform.
  \<^item> An \<^verbatim>\<open>async\<close> function is a \<open>task\<close>: a tree of state updates that stops at every
    \<^verbatim>\<open>await\<close> on the network or the wallet and continues with the answer (a rejection is
    \<open>Inl\<close>, a value is \<open>Inr\<close>). \<^verbatim>\<open>Promise.all\<close> over the read calls of one loader is one
    request whose answer is the tuple of results, or the first rejection.
  \<^item> The browser is an event loop: a click, a wallet event or an answer to a pending
    request runs the code it triggers up to the next \<^verbatim>\<open>await\<close> on the network or the
    wallet. The states between two such runs are the ones React can render: it commits
    the updates made in one run together. A state in which the page waits for the
    network or for the user is always among them.
\<close>

subsection \<open>Configuration\<close>

definition CONFIG_chainId :: nat where
  "CONFIG_chainId = 84532"

subsection \<open>Data\<close>

type_synonym address = string

text \<open>A rejected promise: the wallet's error code (when it has one) and the message.\<close>

record js_error =
  code :: "int option"
  message :: string

text \<open>\<^verbatim>\<open>setFundData({name, description, currentNav, totalShares, inceptionDate})\<close>\<close>

record FundData =
  name :: string
  description :: string
  currentNav :: rat
  totalShares :: rat
  inceptionDate :: rat

text \<open>One element of \<^verbatim>\<open>history\<close>: \<^verbatim>\<open>{date, nav, timestamp}\<close>.\<close>

record NavPoint =
  date :: string
  nav :: rat
  timestamp :: rat

text \<open>
  \<^verbatim>\<open>setLpData({shares, value, initialInvestment, returnRate, investmentDate})\<close>; the field
  \<^verbatim>\<open>value\<close> is named \<open>lp_value\<close>.
\<close>

record LpData =
  shares :: rat
  lp_value :: rat
  initialInvestment :: rat
  returnRate :: rat
  investmentDate :: rat

text \<open>The eight \<^verbatim>\<open>useState\<close> variables of \<^verbatim>\<open>App\<close>, with \<^verbatim>\<open>null\<close> as \<open>None\<close>.\<close>

record state =
  account :: "address option"
  isConnecting :: bool
  isWhitelisted :: bool
  fundData :: "FundData option"
  lpData :: "LpData option"
  navHistory :: "NavPoint list"
  error :: "string option"
  loading :: bool

definition initial_state :: state where
  "initial_state = \<lparr>account = None, isConnecting = False, isWhitelisted = False,
     fundData = None, lpData = None, navHistory = [], error = None, loading = True\<rparr>"

text \<open>The state setters.\<close>

definition setAccount :: "address option \<Rightarrow> state \<Rightarrow> state" where
  "setAccount a s = s\<lparr>account := a\<rparr>"

definition setIsConnecting :: "bool \<Rightarrow> state \<Rightarrow> state" where
  "setIsConnecting b s = s\<lparr>isConnecting := b\<rparr>"

definition setIsWhitelisted :: "bool \<Rightarrow> state \<Rightarrow> state" where
  "setIsWhitelisted b s = s\<lparr>isWhitelisted := b\<rparr>"

definition setFundData :: "FundData option \<Rightarrow> state \<Rightarrow> state" where
  "setFundData d s = s\<lparr>fundData := d\<rparr>"

definition setLpData :: "LpData option \<Rightarrow> state \<Rightarrow> state" where
  "setLpData d s = s\<lparr>lpData := d\<rparr>"

definition setNavHistory :: "NavPoint list \<Rightarrow> state \<Rightarrow> state" where
  "setNavHistory h s = s\<lparr>navHistory := h\<rparr>"

definition setError :: "string option \<Rightarrow> state \<Rightarrow> state" where
  "setError e s = s\<lparr>error := e\<rparr>"

definition setLoading :: "bool \<Rightarrow> state \<Rightarrow> state" where
  "setLoading b s = s\<lparr>loading := b\<rparr>"

subsection \<open>What the contract and the wallet answer\<close>

text \<open>
  The six results of the \<^verbatim>\<open>Promise.all\<close> in \<^verbatim>\<open>loadFundData\<close>; the \<^verbatim>\<open>uint256\<close> values are
  natural numbers.
\<close>

record fund_reply =
  r_name :: string
  r_description :: string
  r_nav :: nat
  r_totalSupply :: nat
  r_inceptionDate :: nat
  r_historyLength :: nat

text \<open>The result of \<^verbatim>\<open>contract.navHistory(i)\<close>.\<close>

record nav_record =
  rec_timestamp :: nat
  rec_nav :: nat
  rec_totalShares :: nat
  rec_totalAssets :: nat
  rec_ipfsHash :: string

text \<open>
  The five results of the \<^verbatim>\<open>Promise.all\<close> in \<^verbatim>\<open>loadLPData\<close>: \<^verbatim>\<open>isWL\<close>, \<^verbatim>\<open>balance\<close>,
  \<^verbatim>\<open>value\<close>, \<^verbatim>\<open>returnRate\<close> (an \<^verbatim>\<open>int256\<close>) and the three fields of \<^verbatim>\<open>info\<close>.
\<close>

record lp_reply =
  isWL :: bool
  balance :: nat
  r_value :: nat
  r_returnRate :: int
  info_initialInvestment :: nat
  info_investmentDate :: nat
  info_isActive :: bool

text \<open>
  The platform the component runs on: whether a wallet is injected
  (\<^verbatim>\<open>window.ethereum\<close>), the rounding of an exact result to a Number, and the date
  formatting of the locale (\<^verbatim>\<open>new Date(t * 1000).toLocaleDateString('en-US', ...)\<close> as a
  function of \<open>t\<close>).
\<close>

record platform =
  hasWallet :: bool
  fl :: "rat \<Rightarrow> rat"
  toLocaleDateString :: "rat \<Rightarrow> string"

subsection \<open>Asynchronous code\<close>

datatype accounts_method = eth_requestAccounts | eth_accounts

datatype chain_method = wallet_switchEthereumChain | wallet_addEthereumChain

text \<open>
  A task is the rest of an asynchronous computation. \<open>Set\<close> is a call of a state setter,
  \<open>Log\<close> is \<^verbatim>\<open>console.error\<close>, \<open>Spawn\<close> calls an async function without awaiting it.
  The other constructors are the points where the code awaits, each with what it does
  with the value or the rejection it gets:
  \<open>RequestAccounts\<close> and \<open>RequestChainId\<close> (the chain id already parsed by
  \<^verbatim>\<open>parseInt(chainId, 16)\<close>) and \<open>RequestChain\<close> are \<^verbatim>\<open>window.ethereum.request\<close>;
  \<open>FundQueries\<close>, \<open>NavHistoryAt\<close> and \<open>LPQueries\<close> are the contract reads.
\<close>

datatype task =
    Done
  | Set "state \<Rightarrow> state" task
  | Log string task
  | Spawn task task
  | RequestAccounts accounts_method "js_error + address list \<Rightarrow> task"
  | RequestChainId "js_error + nat \<Rightarrow> task"
  | RequestChain chain_method nat "js_error + unit \<Rightarrow> task"
  | FundQueries "js_error + fund_reply \<Rightarrow> task"
  | NavHistoryAt nat "js_error + nav_record \<Rightarrow> task"
  | LPQueries address "js_error + lp_reply \<Rightarrow> task"

text \<open>\<open>andThen t k\<close> is \<^verbatim>\<open>await t; k\<close> for a task \<open>t\<close> that handles its own failures.\<close>

primrec andThen :: "task \<Rightarrow> task \<Rightarrow> task" where
  "andThen Done k = k"
| "andThen (Set f t) k = Set f (andThen t k)"
| "andThen (Log m t) k = Log m (andThen t k)"
| "andThen (Spawn c t) k = Spawn c (andThen t k)"
| "andThen (RequestAccounts m g) k = RequestAccounts m (\<lambda>r. andThen (g r) k)"
| "andThen (RequestChainId g) k = RequestChainId (\<lambda>r. andThen (g r) k)"
| "andThen (RequestChain m c g) k = RequestChain m c (\<lambda>r. andThen (g r) k)"
| "andThen (FundQueries g) k = FundQueries (\<lambda>r. andThen (g r) k)"
| "andThen (NavHistoryAt i g) k = NavHistoryAt i (\<lambda>r. andThen (g r) k)"
| "andThen (LPQueries a g) k = LPQueries a (\<lambda>r. andThen (g r) k)"

subsection \<open>Numbers\<close>

text \<open>
  \<^verbatim>\<open>ethers.formatEther(v)\<close> writes the integer \<open>v\<close> as a decimal string with 18 fractional
  digits; the model keeps the rational that string denotes. \<^verbatim>\<open>parseFloat\<close> reads a decimal
  string as the nearest Number.
\<close>

definition formatEther :: "int \<Rightarrow> rat" where
  "formatEther v = of_int v / 10 ^ 18"

definition parseFloat :: "platform \<Rightarrow> rat \<Rightarrow> rat" where
  "parseFloat P x = fl P x"

text \<open>\<^verbatim>\<open>Number(n)\<close> of a bigint: exact up to \<open>2^53\<close>, rounded beyond.\<close>

definition Number :: "platform \<Rightarrow> int \<Rightarrow> rat" where
  "Number P n = (if \<bar>n\<bar> \<le> 2 ^ 53 then of_int n else fl P (of_int n))"

definition js_sub :: "platform \<Rightarrow> rat \<Rightarrow> rat \<Rightarrow> rat" where
  "js_sub P x y = fl P (x - y)"

definition js_mul :: "platform \<Rightarrow> rat \<Rightarrow> rat \<Rightarrow> rat" where
  "js_mul P x y = fl P (x * y)"

definition js_div :: "platform \<Rightarrow> rat \<Rightarrow> rat \<Rightarrow> rat" where
  "js_div P x y = fl P (x / y)"

subsection \<open>The formatting helpers\<close>

fun digits :: "nat \<Rightarrow> string" where
  "digits n = (if n < 10 then [''0123456789'' ! n] else digits (n div 10) @ [''0123456789'' ! (n mod 10)])"

declare digits.simps [simp del]

text \<open>The grouping of \<^verbatim>\<open>en-US\<close>: a comma before every group of three digits.\<close>

fun grouped :: "string \<Rightarrow> string" where
  "grouped ds = (if length ds \<le> 3 then ds
     else grouped (take (length ds - 3) ds) @ '','' @ drop (length ds - 3) ds)"

declare grouped.simps [simp del]

definition fraction_digits :: "nat \<Rightarrow> nat \<Rightarrow> string" where
  "fraction_digits d n = replicate (d - length (digits n)) (CHR ''0'') @ digits n"

text \<open>
  \<^verbatim>\<open>formatNumber(num, decimals = 2)\<close>: \<^verbatim>\<open>'-'\<close> for \<^verbatim>\<open>null\<close> and \<^verbatim>\<open>undefined\<close>, else
  \<^verbatim>\<open>Intl.NumberFormat('en-US', {minimumFractionDigits, maximumFractionDigits})\<close>: the
  magnitude rounded to \<open>decimals\<close> digits (halves away from zero), grouped, with a
  minus sign for a negative number.
\<close>

definition formatNumber :: "rat option \<Rightarrow> nat \<Rightarrow> string" where
  "formatNumber num decimals =
     (case num of
        None \<Rightarrow> ''-''
      | Some x \<Rightarrow>
          (let n = nat \<lfloor>\<bar>x\<bar> * 10 ^ decimals + 1 / 2\<rfloor>
           in (if x < 0 then ''-'' else [])
              @ grouped (digits (n div 10 ^ decimals))
              @ (if decimals = 0 then [] else ''.'' @ fraction_digits decimals (n mod 10 ^ decimals))))"

definition formatUSD :: "platform \<Rightarrow> rat option \<Rightarrow> string" where
  "formatUSD P num =
     (case num of
        None \<Rightarrow> ''-''
      | Some x \<Rightarrow>
          if x \<ge> 1000000 then ''$'' @ formatNumber (Some (js_div P x 1000000)) 2 @ ''M''
          else if x \<ge> 1000 then ''$'' @ formatNumber (Some (js_div P x 1000)) 2 @ ''K''
          else ''$'' @ formatNumber (Some x) 2)"

text \<open>\<^verbatim>\<open>formatDate(timestamp)\<close>: \<^verbatim>\<open>'-'\<close> when the timestamp is falsy.\<close>

definition formatDate :: "platform \<Rightarrow> rat \<Rightarrow> string" where
  "formatDate P t = (if t = 0 then ''-'' else toLocaleDateString P t)"

text \<open>\<^verbatim>\<open>shortenAddress\<close>: the first six characters, three dots, the last four.\<close>

definition shortenAddress :: "address option \<Rightarrow> string" where
  "shortenAddress a =
     (case a of
        None \<Rightarrow> []
      | Some address \<Rightarrow>
          if address = [] then []
          else take 6 address @ ''...'' @ drop (length address - 4) address)"

subsection \<open>Loading the fund data\<close>

text \<open>The \<^verbatim>\<open>catch\<close> and \<^verbatim>\<open>finally\<close> blocks of \<^verbatim>\<open>loadFundData\<close>.\<close>

definition loadFundData_catch :: task where
  "loadFundData_catch =
     Log ''Error loading fund data:''
       (Set (setError (Some ''Failed to load fund data. Please check the contract address.''))
         (Set (setLoading False) Done))"

text \<open>
  The \<^verbatim>\<open>for\<close> loop over the history, from index \<open>i\<close> with the points pushed so far,
  followed by \<^verbatim>\<open>setNavHistory(history)\<close> and the \<^verbatim>\<open>finally\<close> block.
\<close>

function historyLoop :: "platform \<Rightarrow> nat \<Rightarrow> rat \<Rightarrow> NavPoint list \<Rightarrow> task" where
  "historyLoop P i historyLen history =
     (if of_nat i < historyLen then
        NavHistoryAt i (\<lambda>r. case r of
            Inl err \<Rightarrow> loadFundData_catch
          | Inr record \<Rightarrow>
              historyLoop P (Suc i) historyLen
                (history @ [\<lparr>date = formatDate P (Number P (int (rec_timestamp record))),
                             nav = parseFloat P (formatEther (int (rec_nav record))),
                             timestamp = Number P (int (rec_timestamp record))\<rparr>]))
      else Set (setNavHistory history) (Set (setLoading False) Done))"
  by pat_completeness auto
termination
proof (relation "measure (\<lambda>(P, i, historyLen, history). nat \<lceil>historyLen\<rceil> - i)")
  show "wf (measure (\<lambda>(P, i, historyLen, history). nat \<lceil>historyLen\<rceil> - i))"
    by simp
next
  fix P :: platform and i :: nat and historyLen :: rat and history :: "NavPoint list"
    and r :: "js_error + nav_record" and x :: nav_record
  assume "of_nat i < historyLen"
  then have "int i < \<lceil>historyLen\<rceil>"
    by (simp add: less_ceiling_iff)
  then have "i < nat \<lceil>historyLen\<rceil>"
    by linarith
  then show "((P, Suc i, historyLen,
               history @ [\<lparr>date = formatDate P (Number P (int (rec_timestamp x))),
                            nav = parseFloat P (formatEther (int (rec_nav x))),
                            timestamp = Number P (int (rec_timestamp x))\<rparr>]),
              (P, i, historyLen, history))
             \<in> measure (\<lambda>(P, i, historyLen, history). nat \<lceil>historyLen\<rceil> - i)"
    by simp
qed

definition loadFundData :: "platform \<Rightarrow> task" where
  "loadFundData P =
     Set (setLoading True)
       (FundQueries (\<lambda>r. case r of
            Inl err \<Rightarrow> loadFundData_catch
          | Inr res \<Rightarrow>
              Set (setFundData (Some
                    \<lparr>name = r_name res,
                     description = r_description res,
                     currentNav = parseFloat P (formatEther (int (r_nav res))),
                     totalShares = parseFloat P (formatEther (int (r_totalSupply res))),
                     inceptionDate = Number P (int (r_inceptionDate res))\<rparr>))
                (historyLoop P 0 (Number P (int (r_historyLength res))) [])))"

subsection \<open>Loading the position of an address\<close>

definition loadLPData :: "platform \<Rightarrow> address \<Rightarrow> task" where
  "loadLPData P address =
     LPQueries address (\<lambda>r. case r of
         Inl err \<Rightarrow> Log ''Error loading LP data:'' Done
       | Inr res \<Rightarrow>
           Set (setIsWhitelisted (isWL res))
             (if isWL res then
                Set (setLpData (Some
                      \<lparr>shares = parseFloat P (formatEther (int (balance res))),
                       lp_value = parseFloat P (formatEther (int (r_value res))),
                       initialInvestment = parseFloat P (formatEther (int (info_initialInvestment res))),
                       returnRate = js_div P (Number P (r_returnRate res)) 100,
                       investmentDate = Number P (int (info_investmentDate res))\<rparr>))
                  Done
              else Done))"

subsection \<open>Connecting and disconnecting the wallet\<close>

text \<open>The outer \<^verbatim>\<open>catch\<close> block of \<^verbatim>\<open>connectWallet\<close>.\<close>

definition connectWallet_catch :: "js_error \<Rightarrow> task" where
  "connectWallet_catch err = Set (setError (Some (message err))) (Set (setIsConnecting False) Done)"

text \<open>
  The three statements after the network check:
  \<^verbatim>\<open>await loadLPData(accounts[0]); setAccount(accounts[0]); setIsConnecting(false);\<close>
\<close>

definition connectWallet_publish :: "platform \<Rightarrow> address list \<Rightarrow> task" where
  "connectWallet_publish P accounts =
     andThen (loadLPData P (accounts ! 0))
       (Set (setAccount (Some (accounts ! 0))) (Set (setIsConnecting False) Done))"

definition connectWallet :: "platform \<Rightarrow> task" where
  "connectWallet P =
     (if \<not> hasWallet P then
        Set (setError (Some ''Please install MetaMask or another Web3 wallet'')) Done
      else
        Set (setIsConnecting True) (Set (setError None)
          (RequestAccounts eth_requestAccounts (\<lambda>r. case r of
               Inl err \<Rightarrow> connectWallet_catch err
             | Inr accounts \<Rightarrow>
                 if length accounts > 0 then
                   RequestChainId (\<lambda>c. case c of
                       Inl err \<Rightarrow> connectWallet_catch err
                     | Inr chainId \<Rightarrow>
                         if chainId \<noteq> CONFIG_chainId then
                           RequestChain wallet_switchEthereumChain CONFIG_chainId (\<lambda>sw. case sw of
                               Inl switchError \<Rightarrow>
                                 if code switchError = Some 4902 then
                                   RequestChain wallet_addEthereumChain CONFIG_chainId (\<lambda>ad. case ad of
                                       Inl err \<Rightarrow> connectWallet_catch err
                                     | Inr _ \<Rightarrow> connectWallet_publish P accounts)
                                 else connectWallet_publish P accounts
                             | Inr _ \<Rightarrow> connectWallet_publish P accounts)
                         else connectWallet_publish P accounts)
                 else Done))))"

definition disconnectWallet :: task where
  "disconnectWallet = Set (setAccount None) (Set (setIsWhitelisted False) (Set (setLpData None) Done))"

text \<open>The first effect: \<^verbatim>\<open>loadFundData(); checkConnectedWallet();\<close>, neither awaited.\<close>

definition checkConnectedWallet :: "platform \<Rightarrow> task" where
  "checkConnectedWallet P =
     (if hasWallet P then
        RequestAccounts eth_accounts (\<lambda>r. case r of
            Inl err \<Rightarrow> Log ''Error checking wallet:'' Done
          | Inr accounts \<Rightarrow>
              if length accounts > 0 then
                Set (setAccount (Some (accounts ! 0))) (andThen (loadLPData P (accounts ! 0)) Done)
              else Done)
      else Done)"

definition mount :: "platform \<Rightarrow> task" where
  "mount P = Spawn (loadFundData P) (Spawn (checkConnectedWallet P) Done)"

text \<open>The listener of \<^verbatim>\<open>accountsChanged\<close>, registered by the second effect.\<close>

definition accountsChanged :: "platform \<Rightarrow> address list \<Rightarrow> task" where
  "accountsChanged P accounts =
     (if length accounts > 0 then
        Set (setAccount (Some (accounts ! 0))) (Spawn (loadLPData P (accounts ! 0)) Done)
      else disconnectWallet)"

subsection \<open>What is rendered\<close>

text \<open>
  The view keeps, for each conditional part of the JSX, whether it is rendered and with
  which texts. (The card with the days of track record reads the clock and is left out.)
\<close>

record investment_view =
  currentValue_text :: string
  yourShares_text :: string
  initialInvestment_text :: string
  totalReturn_text :: string
  investmentDate_text :: string

record view =
  title :: string
  connected_chip :: "string option"
  connect_button :: "(string \<times> bool) option"
  error_banner :: "string option"
  loading_notice :: bool
  nav_text :: "string option"
  sinceInception_text :: "string option"
  totalShares_text :: "string option"
  inceptionDate_text :: "string option"
  chart :: "NavPoint list option"
  your_investment :: "investment_view option"
  connect_prompt :: bool
  not_whitelisted :: "string option"

text \<open>A string or \<^verbatim>\<open>null\<close> used as a condition: \<^verbatim>\<open>null\<close> and the empty string are falsy.\<close>

definition truthy :: "string option \<Rightarrow> bool" where
  "truthy x = (case x of None \<Rightarrow> False | Some s \<Rightarrow> s \<noteq> [])"

text \<open>
  \<^verbatim>\<open>{fundData?.currentNav >= 1 ? '+' : ''}{formatNumber((fundData?.currentNav - 1) * 100)}%
  since inception\<close>; without fund data the difference is \<^verbatim>\<open>NaN\<close>, which is formatted as
  \<^verbatim>\<open>NaN\<close>.
\<close>

definition sinceInception :: "platform \<Rightarrow> FundData option \<Rightarrow> string" where
  "sinceInception P fd =
     (case fd of
        None \<Rightarrow> ''NaN''
      | Some d \<Rightarrow>
          (if currentNav d \<ge> 1 then ''+'' else [])
          @ formatNumber (Some (js_mul P (js_sub P (currentNav d) 1) 100)) 2)
     @ ''% since inception''"

definition render_investment :: "platform \<Rightarrow> LpData \<Rightarrow> investment_view" where
  "render_investment P d =
     \<lparr>currentValue_text = formatUSD P (Some (lp_value d)),
      yourShares_text = formatNumber (Some (shares d)) 0,
      initialInvestment_text = formatUSD P (Some (initialInvestment d)),
      totalReturn_text = (if returnRate d \<ge> 0 then ''+'' else []) @ formatNumber (Some (returnRate d)) 2 @ ''%'',
      investmentDate_text = ''Investment Date: '' @ formatDate P (investmentDate d)\<rparr>"

definition render :: "platform \<Rightarrow> state \<Rightarrow> view" where
  "render P s =
     \<lparr>title = (case fundData s of None \<Rightarrow> ''Fund Portal''
               | Some d \<Rightarrow> if name d = [] then ''Fund Portal'' else name d),
      connected_chip = (if truthy (account s) then Some (shortenAddress (account s)) else None),
      connect_button = (if truthy (account s) then None
                        else Some (if isConnecting s then ''Connecting...'' else ''Connect Wallet'',
                                   isConnecting s)),
      error_banner = (if truthy (error s) then error s else None),
      loading_notice = loading s,
      nav_text = (if loading s then None
                  else Some (''$'' @ formatNumber (map_option currentNav (fundData s)) 4)),
      sinceInception_text = (if loading s then None else Some (sinceInception P (fundData s))),
      totalShares_text = (if loading s then None
                          else Some (formatNumber (map_option totalShares (fundData s)) 0)),
      inceptionDate_text = (if loading s then None
                            else Some (case fundData s of None \<Rightarrow> ''-''
                                       | Some d \<Rightarrow> formatDate P (inceptionDate d))),
      chart = (if \<not> loading s \<and> length (navHistory s) > 1 then Some (navHistory s) else None),
      your_investment =
        (if loading s then None
         else case lpData s of
                None \<Rightarrow> None
              | Some d \<Rightarrow> if truthy (account s) \<and> isWhitelisted s \<and> shares d > 0
                          then Some (render_investment P d) else None),
      connect_prompt = (\<not> loading s \<and> \<not> truthy (account s)),
      not_whitelisted = (if \<not> loading s \<and> truthy (account s) \<and> \<not> isWhitelisted s
                         then Some (shortenAddress (account s)) else None)\<rparr>"

subsection \<open>The event loop\<close>

text \<open>
  The page: the component's state, what was written to the console, and the
  computations that wait for an answer, oldest first.
\<close>

record sys =
  ui :: state
  console :: "string list"
  pending :: "task list"

text \<open>Running a task up to its next \<^verbatim>\<open>await\<close>, where it joins the pending ones.\<close>

primrec run_task :: "task \<Rightarrow> sys \<Rightarrow> sys" where
  "run_task Done w = w"
| "run_task (Set f t) w = run_task t (w\<lparr>ui := f (ui w)\<rparr>)"
| "run_task (Log m t) w = run_task t (w\<lparr>console := console w @ [m]\<rparr>)"
| "run_task (Spawn c t) w = run_task t (run_task c w)"
| "run_task (RequestAccounts m g) w = w\<lparr>pending := pending w @ [RequestAccounts m g]\<rparr>"
| "run_task (RequestChainId g) w = w\<lparr>pending := pending w @ [RequestChainId g]\<rparr>"
| "run_task (RequestChain m c g) w = w\<lparr>pending := pending w @ [RequestChain m c g]\<rparr>"
| "run_task (FundQueries g) w = w\<lparr>pending := pending w @ [FundQueries g]\<rparr>"
| "run_task (NavHistoryAt i g) w = w\<lparr>pending := pending w @ [NavHistoryAt i g]\<rparr>"
| "run_task (LPQueries a g) w = w\<lparr>pending := pending w @ [LPQueries a g]\<rparr>"

text \<open>The answers of the wallet and of the contract, one kind for each kind of request.\<close>

datatype reply =
    AccountsReply "js_error + address list"
  | ChainIdReply "js_error + nat"
  | ChainReply "js_error + unit"
  | FundReply "js_error + fund_reply"
  | NavReply "js_error + nav_record"
  | LPReply "js_error + lp_reply"

fun resume :: "task \<Rightarrow> reply \<Rightarrow> task option" where
  "resume (RequestAccounts m g) (AccountsReply r) = Some (g r)"
| "resume (RequestChainId g) (ChainIdReply r) = Some (g r)"
| "resume (RequestChain m c g) (ChainReply r) = Some (g r)"
| "resume (FundQueries g) (FundReply r) = Some (g r)"
| "resume (NavHistoryAt i g) (NavReply r) = Some (g r)"
| "resume (LPQueries a g) (LPReply r) = Some (g r)"
| "resume _ _ = None"

text \<open>
  What can happen to the page: a click on a \<^verbatim>\<open>Connect Wallet\<close> button or on
  \<^verbatim>\<open>Disconnect\<close>, the wallet's \<^verbatim>\<open>accountsChanged\<close> and \<^verbatim>\<open>chainChanged\<close> events, and the
  answer to the pending request number \<open>i\<close>.
\<close>

datatype event =
    ConnectClick
  | DisconnectClick
  | AccountsChanged "address list"
  | ChainChanged
  | Answer nat reply

text \<open>The page after the first render and its effects.\<close>

definition boot :: "platform \<Rightarrow> sys" where
  "boot P = run_task (mount P) \<lparr>ui = initial_state, console = [], pending = []\<rparr>"

text \<open>
  A connect button can be clicked when the header button is rendered and not disabled, or
  when the \<^verbatim>\<open>Connect Your Wallet\<close> card (whose button is never disabled) is rendered.
\<close>

definition connect_clickable :: "view \<Rightarrow> bool" where
  "connect_clickable v =
     (case connect_button v of
        None \<Rightarrow> connect_prompt v
      | Some (l, disabled) \<Rightarrow> if disabled then connect_prompt v else True)"

fun step :: "platform \<Rightarrow> sys \<Rightarrow> event \<Rightarrow> sys option" where
  "step P w ConnectClick =
     (if connect_clickable (render P (ui w)) then Some (run_task (connectWallet P) w) else None)"
| "step P w DisconnectClick =
     (if connected_chip (render P (ui w)) \<noteq> None then Some (run_task disconnectWallet w) else None)"
| "step P w (AccountsChanged accounts) =
     (if hasWallet P then Some (run_task (accountsChanged P accounts) w) else None)"
| "step P w ChainChanged = (if hasWallet P then Some (boot P) else None)"
| "step P w (Answer i r) =
     (if i < length (pending w) then
        (case resume (pending w ! i) r of
           None \<Rightarrow> None
         | Some t \<Rightarrow> Some (run_task t (w\<lparr>pending := take i (pending w) @ drop (Suc i) (pending w)\<rparr>)))
      else None)"

fun exec :: "platform \<Rightarrow> sys \<Rightarrow> event list \<Rightarrow> sys option" where
  "exec P w [] = Some w"
| "exec P w (e # es) = (case step P w e of None \<Rightarrow> None | Some w' \<Rightarrow> exec P w' es)"

text \<open>
  What is observed of the page after a list of events since the first render: the state,
  the view, and the computations still waiting.
\<close>

definition state_after :: "platform \<Rightarrow> event list \<Rightarrow> state option" where
  "state_after P es = map_option ui (exec P (boot P) es)"

definition view_after :: "platform \<Rightarrow> event list \<Rightarrow> view option" where
  "view_after P es = map_option (render P) (state_after P es)"

definition console_after :: "platform \<Rightarrow> event list \<Rightarrow> string list option" where
  "console_after P es = map_option console (exec P (boot P) es)"

definition pending_after :: "platform \<Rightarrow> event list \<Rightarrow> task list option" where
  "pending_after P es = map_option pending (exec P (boot P) es)"

subsection \<open>Invariants of the event loop\<close>

text \<open>
  \<open>effect t\<close> is what running \<open>t\<close> up to its next \<^verbatim>\<open>await\<close> does to the state, and
  \<open>waits t\<close> are the computations it leaves waiting. A task keeps a property of the
  state when its run preserves it; it is safe when so is every continuation of every
  request it can come to wait for.
\<close>

primrec effect :: "task \<Rightarrow> state \<Rightarrow> state" where
  "effect Done s = s"
| "effect (Set f t) s = effect t (f s)"
| "effect (Log m t) s = effect t s"
| "effect (Spawn c t) s = effect t (effect c s)"
| "effect (RequestAccounts m g) s = s"
| "effect (RequestChainId g) s = s"
| "effect (RequestChain m c g) s = s"
| "effect (FundQueries g) s = s"
| "effect (NavHistoryAt i g) s = s"
| "effect (LPQueries a g) s = s"

primrec waits :: "task \<Rightarrow> task list" where
  "waits Done = []"
| "waits (Set f t) = waits t"
| "waits (Log m t) = waits t"
| "waits (Spawn c t) = waits c @ waits t"
| "waits (RequestAccounts m g) = [RequestAccounts m g]"
| "waits (RequestChainId g) = [RequestChainId g]"
| "waits (RequestChain m c g) = [RequestChain m c g]"
| "waits (FundQueries g) = [FundQueries g]"
| "waits (NavHistoryAt i g) = [NavHistoryAt i g]"
| "waits (LPQueries a g) = [LPQueries a g]"

definition keeps :: "(state \<Rightarrow> bool) \<Rightarrow> task \<Rightarrow> bool" where
  "keeps I t = (\<forall>s. I s \<longrightarrow> I (effect t s))"

primrec safe :: "(state \<Rightarrow> bool) \<Rightarrow> task \<Rightarrow> bool" where
  "safe I Done = True"
| "safe I (Set f t) = safe I t"
| "safe I (Log m t) = safe I t"
| "safe I (Spawn c t) = (safe I c \<and> safe I t)"
| "safe I (RequestAccounts m g) = (\<forall>r. keeps I (g r) \<and> safe I (g r))"
| "safe I (RequestChainId g) = (\<forall>r. keeps I (g r) \<and> safe I (g r))"
| "safe I (RequestChain m c g) = (\<forall>r. keeps I (g r) \<and> safe I (g r))"
| "safe I (FundQueries g) = (\<forall>r. keeps I (g r) \<and> safe I (g r))"
| "safe I (NavHistoryAt i g) = (\<forall>r. keeps I (g r) \<and> safe I (g r))"
| "safe I (LPQueries a g) = (\<forall>r. keeps I (g r) \<and> safe I (g r))"

definition page_ok :: "(state \<Rightarrow> bool) \<Rightarrow> sys \<Rightarrow> bool" where
  "page_ok I w = (I (ui w) \<and> (\<forall>p \<in> set (pending w). safe I p))"

text \<open>The whitelist flag is only ever true together with a position record.\<close>

definition position_inv :: "state \<Rightarrow> bool" where
  "position_inv s = (isWhitelisted s \<longrightarrow> lpData s \<noteq> None)"

subsection \<open>The rounding of Numbers\<close>

text \<open>
  A platform is accurate when rounding an exact result in the normal range of the
  double-precision format changes it by at most the relative error \<open>2\<^sup>-\<^sup>5\<^sup>3\<close>, as
  rounding to nearest does.
\<close>

definition accurate :: "platform \<Rightarrow> bool" where
  "accurate P = (\<forall>x. 1 / 2 ^ 1022 \<le> \<bar>x\<bar> \<and> \<bar>x\<bar> < 2 ^ 1024 \<longrightarrow> \<bar>fl P x - x\<bar> \<le> \<bar>x\<bar> / 2 ^ 53)"

section \<open>Example inputs\<close>

text \<open>
  A platform with an injected wallet whose arithmetic is exact, two addresses, a wallet
  error other than 4902 (the user rejecting a request), answers of the contract for the
  fund and for a whitelisted and a not whitelisted address.
\<close>

definition exact_platform :: platform where
  "exact_platform = \<lparr>hasWallet = True, fl = (\<lambda>x. x), toLocaleDateString = (\<lambda>t. ''Jan 1, 2026'')\<rparr>"

definition alice :: address where
  "alice = ''0xABCD00000000000000000000000000000000AAAA''"

definition bob :: address where
  "bob = ''0xABCD00000000000000000000000000000000BBBB''"

definition user_rejected :: js_error where
  "user_rejected = \<lparr>code = Some 4001, message = ''User rejected the request.''\<rparr>"

definition rpc_failure :: js_error where
  "rpc_failure = \<lparr>code = None, message = ''could not detect network''\<rparr>"

definition fund_answer :: fund_reply where
  "fund_answer = \<lparr>r_name = ''Fund'', r_description = ''A fund'', r_nav = 1040000000000000000,
     r_totalSupply = 5000000000000000000000, r_inceptionDate = 1700000000, r_historyLength = 0\<rparr>"

definition alice_position :: lp_reply where
  "alice_position = \<lparr>isWL = True, balance = 7000000000000000000, r_value = 7280000000000000000,
     r_returnRate = 400, info_initialInvestment = 7000000000000000000,
     info_investmentDate = 1700000000, info_isActive = True\<rparr>"

definition bob_position :: lp_reply where
  "bob_position = \<lparr>isWL = True, balance = 5000000000000000000, r_value = 5200000000000000000,
     r_returnRate = 400, info_initialInvestment = 5000000000000000000,
     info_investmentDate = 1710000000, info_isActive = True\<rparr>"

definition not_listed :: lp_reply where
  "not_listed = \<lparr>isWL = False, balance = 0, r_value = 0, r_returnRate = 0,
     info_initialInvestment = 0, info_investmentDate = 0, info_isActive = False\<rparr>"

text \<open>
  The events that lead from the first render to the idle page: the fund data are loaded
  and the wallet has reported no authorised account, so that nothing is pending and
  nobody is connected.
\<close>

definition idle_events :: "event list" where
  "idle_events = [Answer 0 (FundReply (Inr fund_answer)), Answer 0 (AccountsReply (Inr []))]"

text \<open>The page before the effects of the first render have run.\<close>

definition first_page :: sys where
  "first_page = \<lparr>ui = initial_state, console = [], pending = []\<rparr>"

text \<open>A page on which bob is connected and the fund data are loaded.\<close>

definition bob_connected :: sys where
  "bob_connected = \<lparr>ui = initial_state\<lparr>account := Some bob, loading := False\<rparr>, console = [], pending = []\<rparr>"

text \<open>What the state holds once the fund data and the position of alice are loaded.\<close>

definition loaded_fund :: FundData where
  "loaded_fund = \<lparr>name = ''Fund'', description = ''A fund'', currentNav = 26 / 25,
     totalShares = 5000, inceptionDate = 1700000000\<rparr>"

definition alice_record :: LpData where
  "alice_record = \<lparr>shares = 7, lp_value = 182 / 25, initialInvestment = 7, returnRate = 4,
     investmentDate = 1700000000\<rparr>"

text \<open>
  The page on which alice is connected with her position, and the page just after the
  wallet has switched from alice to bob, whose position is being read.
\<close>

definition alice_page :: sys where
  "alice_page = \<lparr>ui = \<lparr>account = Some alice, isConnecting = False, isWhitelisted = True,
       fundData = Some loaded_fund, lpData = Some alice_record, navHistory = [], error = None,
       loading = False\<rparr>,
     console = [], pending = []\<rparr>"

definition switched_page :: sys where
  "switched_page = \<lparr>ui = \<lparr>account = Some bob, isConnecting = False, isWhitelisted = True,
       fundData = Some loaded_fund, lpData = Some alice_record, navHistory = [], error = None,
       loading = False\<rparr>,
     console = [], pending = [loadLPData exact_platform bob]\<rparr>"

text \<open>The page on which bob is connected while the reads for alice and for bob are both pending.\<close>

definition racing_page :: sys where
  "racing_page = \<lparr>ui = initial_state\<lparr>account := Some bob, loading := False\<rparr>, console = [],
     pending = [loadLPData exact_platform alice, loadLPData exact_platform bob]\<rparr>"

text \<open>A fund with two history entries.\<close>

definition history_fund_answer :: fund_reply where
  "history_fund_answer = \<lparr>r_name = ''Fund'', r_description = ''A fund'', r_nav = 1040000000000000000,
     r_totalSupply = 5000000000000000000000, r_inceptionDate = 1700000000, r_historyLength = 2\<rparr>"

definition history_records :: "nav_record list" where
  "history_records =
     [\<lparr>rec_timestamp = 1700000000, rec_nav = 1000000000000000000,
       rec_totalShares = 5000000000000000000000, rec_totalAssets = 5000000000000000000000,
       rec_ipfsHash = ''Qm1''\<rparr>,
      \<lparr>rec_timestamp = 1702592000, rec_nav = 1040000000000000000,
       rec_totalShares = 5000000000000000000000, rec_totalAssets = 5200000000000000000000,
       rec_ipfsHash = ''Qm2''\<rparr>]"

section \<open>Properties\<close>

declare historyLoop.simps [simp del]

lemmas setters = setAccount_def setIsConnecting_def setIsWhitelisted_def setFundData_def
  setLpData_def setNavHistory_def setError_def setLoading_def

lemmas examples = exact_platform_def alice_def bob_def user_rejected_def rpc_failure_def
  fund_answer_def alice_position_def bob_position_def not_listed_def idle_events_def
  first_page_def bob_connected_def loaded_fund_def alice_record_def alice_page_def
  switched_page_def racing_page_def history_fund_answer_def history_records_def

lemma Number_0: "Number P 0 = 0"
  by (simp add: Number_def)

lemmas code = boot_def mount_def loadFundData_def loadFundData_catch_def loadLPData_def
  connectWallet_def connectWallet_catch_def connectWallet_publish_def disconnectWallet_def
  checkConnectedWallet_def accountsChanged_def initial_state_def CONFIG_chainId_def

lemmas views = render_def connect_clickable_def truthy_def

lemmas numbers = formatEther_def parseFloat_def Number_def js_div_def js_mul_def js_sub_def

lemmas observations = state_after_def view_after_def console_after_def pending_after_def

lemma connect_clickable_iff:
  "connect_clickable (render P s) = (\<not> truthy (account s) \<and> (\<not> isConnecting s \<or> \<not> loading s))"
  by (simp add: connect_clickable_def render_def)

lemma andThen_Done [simp]: "andThen t Done = t"
  by (induction t) (simp_all add: fun_eq_iff)

lemma ui_run_task: "ui (run_task t w) = effect t (ui w)"
  by (induction t arbitrary: w) simp_all

lemma pending_run_task: "pending (run_task t w) = pending w @ waits t"
  by (induction t arbitrary: w) simp_all

lemma safe_waits: "safe I t \<Longrightarrow> p \<in> set (waits t) \<Longrightarrow> safe I p"
  by (induction t) auto

lemma safe_resume: "safe I p \<Longrightarrow> resume p r = Some t \<Longrightarrow> keeps I t \<and> safe I t"
  by (cases "(p, r)" rule: resume.cases) auto

lemma page_ok_run_task:
  assumes "page_ok I w" and "keeps I t" and "safe I t"
  shows "page_ok I (run_task t w)"
  using assms
  by (auto simp add: page_ok_def ui_run_task pending_run_task keeps_def dest: safe_waits)

lemma keeps_loadLPData: "keeps position_inv (loadLPData P a)" "safe position_inv (loadLPData P a)"
  by (auto simp add: keeps_def loadLPData_def position_inv_def setters split: sum.splits)

lemma keeps_publish: "keeps position_inv (connectWallet_publish P as)" "safe position_inv (connectWallet_publish P as)"
  by (auto simp add: keeps_def connectWallet_publish_def loadLPData_def position_inv_def setters split: sum.splits)

lemma keeps_connectWallet: "keeps position_inv (connectWallet P)" "safe position_inv (connectWallet P)"
  using keeps_publish
  by (auto simp add: keeps_def connectWallet_def connectWallet_catch_def position_inv_def setters split: sum.splits)

lemma keeps_disconnect: "keeps position_inv disconnectWallet" "safe position_inv disconnectWallet"
  by (auto simp add: keeps_def disconnectWallet_def position_inv_def setters)

lemma keeps_accountsChanged: "keeps position_inv (accountsChanged P as)" "safe position_inv (accountsChanged P as)"
  using keeps_loadLPData keeps_disconnect
  by (auto simp add: keeps_def accountsChanged_def  position_inv_def setters)

lemma keeps_check: "keeps position_inv (checkConnectedWallet P)" "safe position_inv (checkConnectedWallet P)"
  using keeps_loadLPData
  by (auto simp add: keeps_def checkConnectedWallet_def position_inv_def setters split: sum.splits)

lemma keeps_catch: "keeps position_inv loadFundData_catch" "safe position_inv loadFundData_catch"
  by (auto simp add: keeps_def loadFundData_catch_def position_inv_def setters)

lemma keeps_historyLoop: "keeps position_inv (historyLoop P i h acc) \<and> safe position_inv (historyLoop P i h acc)"
proof (induction P i h acc rule: historyLoop.induct)
  case (1 P i h acc)
  show ?case
  proof (cases "of_nat i < h")
    case True
    then show ?thesis
      using 1 keeps_catch
      by (subst (1 2) historyLoop.simps) (auto simp add: keeps_def split: sum.splits)
  next
    case False
    then show ?thesis
      by (subst (1 2) historyLoop.simps) (auto simp add: keeps_def position_inv_def setters)
  qed
qed

lemma keeps_loadFundData: "keeps position_inv (loadFundData P)" "safe position_inv (loadFundData P)"
  using keeps_historyLoop
  by (auto simp add: keeps_def loadFundData_def loadFundData_catch_def position_inv_def setters split: sum.splits)

lemma keeps_mount: "keeps position_inv (mount P)" "safe position_inv (mount P)"
  using keeps_loadFundData keeps_check
  by (auto simp add: keeps_def mount_def)

lemma page_ok_boot: "page_ok position_inv (boot P)"
  unfolding boot_def
  by (rule page_ok_run_task) (simp_all add: keeps_mount page_ok_def position_inv_def initial_state_def)

lemma page_ok_step:
  assumes "page_ok position_inv w" and "step P w e = Some w'"
  shows "page_ok position_inv w'"
proof (cases e)
  case ConnectClick
  then show ?thesis
    using assms by (auto split: if_splits intro: page_ok_run_task keeps_connectWallet)
next
  case DisconnectClick
  then show ?thesis
    using assms by (auto split: if_splits intro: page_ok_run_task keeps_disconnect)
next
  case (AccountsChanged as)
  then show ?thesis
    using assms by (auto split: if_splits intro: page_ok_run_task keeps_accountsChanged)
next
  case ChainChanged
  then show ?thesis
    using assms by (auto split: if_splits intro: page_ok_boot)
next
  case (Answer i r)
  with assms obtain t where i: "i < length (pending w)" and r: "resume (pending w ! i) r = Some t"
    and w': "w' = run_task t (w\<lparr>pending := take i (pending w) @ drop (Suc i) (pending w)\<rparr>)"
    by (auto split: if_splits option.splits)
  from assms(1) i have "safe position_inv (pending w ! i)"
    by (simp add: page_ok_def)
  with r have t: "keeps position_inv t" "safe position_inv t"
    by (auto dest: safe_resume)
  have "page_ok position_inv (w\<lparr>pending := take i (pending w) @ drop (Suc i) (pending w)\<rparr>)"
    using assms(1) by (auto simp add: page_ok_def dest: in_set_takeD in_set_dropD)
  then show ?thesis
    unfolding w' using t by (rule page_ok_run_task)
qed

lemma page_ok_exec:
  "page_ok position_inv w \<Longrightarrow> exec P w es = Some w' \<Longrightarrow> page_ok position_inv w'"
  by (induction es arbitrary: w) (auto split: option.splits dest: page_ok_step)

lemma historyLoop_stop:
  "\<not> of_nat i < h \<Longrightarrow>
   historyLoop P i h acc = Set (setNavHistory acc) (Set (setLoading False) Done)"
  by (simp add: historyLoop.simps[of P i h acc])

lemma historyLoop_next:
  "of_nat i < h \<Longrightarrow>
   historyLoop P i h acc =
     NavHistoryAt i (\<lambda>r. case r of
            Inl err \<Rightarrow> loadFundData_catch
          | Inr record \<Rightarrow>
              historyLoop P (Suc i) h
                (acc @ [\<lparr>date = formatDate P (Number P (int (rec_timestamp record))),
                             nav = parseFloat P (formatEther (int (rec_nav record))),
                             timestamp = Number P (int (rec_timestamp record))\<rparr>]))"
  by (simp add: historyLoop.simps[of P i h acc])

lemma historyLoop_run:
  "h = of_nat (i + length recs) \<Longrightarrow>
   exec P (run_task (historyLoop P i h acc) w)
          (map (\<lambda>r. Answer (length (pending w)) (NavReply (Inr r))) recs)
     = Some (w\<lparr>ui := (ui w)\<lparr>navHistory :=
                  acc @ map (\<lambda>r. \<lparr>date = formatDate P (Number P (int (rec_timestamp r))),
                                     nav = parseFloat P (formatEther (int (rec_nav r))),
                                     timestamp = Number P (int (rec_timestamp r))\<rparr>) recs,
                loading := False\<rparr>\<rparr>)"
proof (induction recs arbitrary: i acc)
  case Nil
  then have "\<not> of_nat i < h"
    by simp
  then show ?case
    by (simp add: historyLoop_stop setters)
next
  case (Cons r recs)
  have lt: "of_nat i < h"
    using Cons.prems by simp
  have h: "h = of_nat (Suc i + length recs)"
    using Cons.prems by simp
  show ?case
    using Cons.IH [OF h]
    by (simp add: historyLoop_next [OF lt])
qed

lemma Number_small: "n \<le> 2 ^ 53 \<Longrightarrow> Number P (int n) = of_nat n"
  by (simp add: Number_def)

lemma accurate_near_one:
  assumes "accurate P" and "1 / 100 \<le> \<bar>x\<bar>" and "\<bar>x\<bar> \<le> 100"
  shows "\<bar>fl P x - x\<bar> \<le> \<bar>x\<bar> / 9007199254740992"
proof -
  have "(2::rat) ^ 7 \<le> 2 ^ 1022" and "(2::rat) ^ 7 \<le> 2 ^ 1024"
    by (rule power_increasing, simp, simp)+
  then have lo: "(128::rat) \<le> 2 ^ 1022" and hi: "(128::rat) \<le> 2 ^ 1024"
    by simp_all
  have "1 / 2 ^ 1022 \<le> 1 / (128::rat)"
    using lo by (intro divide_left_mono) simp_all
  then have "1 / 2 ^ 1022 \<le> \<bar>x\<bar>"
    using assms(2) by linarith
  moreover have "\<bar>x\<bar> < 2 ^ 1024"
    using assms(3) hi by linarith
  ultimately have "\<bar>fl P x - x\<bar> \<le> \<bar>x\<bar> / 2 ^ 53"
    using assms(1) unfolding accurate_def by blast
  then show ?thesis
    by simp
qed

lemma digits_small: "n < 10 \<Longrightarrow> digits n = [''0123456789'' ! n]"
  by (simp add: digits.simps)

lemma digits_step: "10 \<le> n \<Longrightarrow> digits n = digits (n div 10) @ [''0123456789'' ! (n mod 10)]"
  by (simp add: digits.simps[of n])

lemma grouped_short: "length ds \<le> 3 \<Longrightarrow> grouped ds = ds"
  by (simp add: grouped.simps)

lemma grouped_long:
  "3 < length ds \<Longrightarrow>
   grouped ds = grouped (take (length ds - 3) ds) @ '','' @ drop (length ds - 3) ds"
  by (simp add: grouped.simps[of ds])

lemmas format_eval = digits_small digits_step grouped_short grouped_long fraction_digits_def

lemma formatNumber_eval:
  "\<lfloor>\<bar>x\<bar> * 10 ^ d + 1 / 2\<rfloor> = int n \<Longrightarrow>
   formatNumber (Some x) d =
     (if x < 0 then ''-'' else []) @ grouped (digits (n div 10 ^ d))
     @ (if d = 0 then [] else ''.'' @ fraction_digits d (n mod 10 ^ d))"
  by (simp add: formatNumber_def Let_def)

lemma formatNumber_near_4:
  assumes "3995 / 1000 \<le> x" and "x < 4005 / 1000"
  shows "formatNumber (Some x) 2 = ''4.00''"
  using assms
  by (subst formatNumber_eval [where n = 400]) (simp_all add: floor_eq_iff format_eval)

lemma formatNumber_near_104:
  assumes "103995 / 100000 \<le> x" and "x < 104005 / 100000"
  shows "formatNumber (Some x) 4 = ''1.0400''"
  using assms
  by (subst formatNumber_eval [where n = 10400]) (simp_all add: floor_eq_iff format_eval)

lemma rounding_bound:
  fixes d b e :: rat
  assumes "e \<le> d / 9007199254740992" and "d \<le> b"
  shows "e \<le> b / 9007199254740992"
proof -
  have "d / 9007199254740992 \<le> b / 9007199254740992"
    using assms(2) by (rule divide_right_mono) simp
  with assms(1) show ?thesis
    by (rule order_trans)
qed

lemma scenario_A_numbers:
  assumes "accurate P"
  defines "x \<equiv> parseFloat P (formatEther 1040000000000000000)"
  shows "103995 / 100000 \<le> x" and "x < 104005 / 100000" and "1 \<le> x"
    and "3995 / 1000 \<le> js_mul P (js_sub P x 1) 100"
    and "js_mul P (js_sub P x 1) 100 < 4005 / 1000"
proof -
  note r = accurate_near_one [OF assms(1)]
  have x: "x = fl P (26 / 25)"
    by (simp add: x_def parseFloat_def formatEther_def)
  have "\<bar>x - 26 / 25\<bar> \<le> \<bar>26 / 25\<bar> / 9007199254740992"
    unfolding x by (rule r) simp_all
  then have bx: "26 / 25 - 1 / 1000000000 \<le> x \<and> x \<le> 26 / 25 + 1 / 1000000000"
    by linarith
  then show "103995 / 100000 \<le> x" "x < 104005 / 100000" "1 \<le> x"
    by linarith+
  define y where "y = fl P (x - 1)"
  have x1: "1 / 100 \<le> \<bar>x - 1\<bar>" "\<bar>x - 1\<bar> \<le> 100" "\<bar>x - 1\<bar> \<le> 1"
    using bx by linarith+
  have "\<bar>y - (x - 1)\<bar> \<le> \<bar>x - 1\<bar> / 9007199254740992"
    unfolding y_def using x1(1,2) by (rule r)
  then have "\<bar>y - (x - 1)\<bar> \<le> 1 / 9007199254740992"
    using x1(3) by (rule rounding_bound)
  with bx have bnd_y: "1 / 25 - 2 / 1000000000 \<le> y \<and> y \<le> 1 / 25 + 2 / 1000000000"
    by linarith
  define z where "z = fl P (y * 100)"
  have y1: "1 / 100 \<le> \<bar>y * 100\<bar>" "\<bar>y * 100\<bar> \<le> 100" "\<bar>y * 100\<bar> \<le> 5"
    using bnd_y by linarith+
  have "\<bar>z - y * 100\<bar> \<le> \<bar>y * 100\<bar> / 9007199254740992"
    unfolding z_def using y1(1,2) by (rule r)
  then have "\<bar>z - y * 100\<bar> \<le> 5 / 9007199254740992"
    using y1(3) by (rule rounding_bound)
  with bnd_y have bnd_z: "3995 / 1000 \<le> z \<and> z < 4005 / 1000"
    by linarith
  have "js_mul P (js_sub P x 1) 100 = z"
    by (simp add: js_mul_def js_sub_def z_def y_def)
  then show "3995 / 1000 \<le> js_mul P (js_sub P x 1) 100" "js_mul P (js_sub P x 1) 100 < 4005 / 1000"
    using bnd_z by simp_all
qed

subsection \<open>Publishing the account and loading its position\<close>

text \<open>
  Claim C1. On every path the account is published (\<^verbatim>\<open>setAccount\<close>) only after
  \<^verbatim>\<open>loadLPData\<close> for that address has resolved. \<^verbatim>\<open>connectWallet\<close> does so; the two other
  paths call \<^verbatim>\<open>setAccount\<close> first. The theorem runs them: when the wallet answers
  \<^verbatim>\<open>eth_accounts\<close> with alice's address on mount, and when it emits \<^verbatim>\<open>accountsChanged\<close>
  with it on the idle page, the account is alice while her position is still being read,
  and the page renders \<^verbatim>\<open>Wallet Not Whitelisted\<close> for her.
\<close>

theorem C1_account_published_before_position:
  "map_option account (state_after exact_platform
      [Answer 0 (FundReply (Inr fund_answer)), Answer 0 (AccountsReply (Inr [alice]))])
     = Some (Some alice)
   \<and> pending_after exact_platform
      [Answer 0 (FundReply (Inr fund_answer)), Answer 0 (AccountsReply (Inr [alice]))]
     = Some [loadLPData exact_platform alice]
   \<and> map_option not_whitelisted (view_after exact_platform
      [Answer 0 (FundReply (Inr fund_answer)), Answer 0 (AccountsReply (Inr [alice]))])
     = Some (Some ''0xABCD...AAAA'')
   \<and> map_option account (state_after exact_platform (idle_events @ [AccountsChanged [alice]]))
     = Some (Some alice)
   \<and> pending_after exact_platform (idle_events @ [AccountsChanged [alice]])
     = Some [loadLPData exact_platform alice]
   \<and> map_option not_whitelisted (view_after exact_platform (idle_events @ [AccountsChanged [alice]]))
     = Some (Some ''0xABCD...AAAA'')"
  by (simp add: observations code setters examples Number_0 historyLoop_stop views
        shortenAddress_def)

subsection \<open>The position record and the whitelist flag\<close>

text \<open>
  Claim C2, as stated, fails: after alice's position is loaded, the wallet switches to
  bob, who is not whitelisted; once bob's position load has resolved nothing is pending,
  the flag is false and the position record is still alice's.
\<close>

theorem C2_counterexample:
  "exec exact_platform (boot exact_platform)
     (idle_events @ [AccountsChanged [alice], Answer 0 (LPReply (Inr alice_position)),
                     AccountsChanged [bob], Answer 0 (LPReply (Inr not_listed))])
   = Some \<lparr>ui = \<lparr>account = Some bob, isConnecting = False, isWhitelisted = False,
               fundData = Some loaded_fund, lpData = Some alice_record, navHistory = [],
               error = None, loading = False\<rparr>,
            console = [], pending = []\<rparr>"
  by (simp add: code setters examples Number_0 historyLoop_stop numbers)

text \<open>
  Claim C2, amended. In every reachable state the whitelist flag is true only together
  with a position record, and \<^verbatim>\<open>Your Investment\<close> is rendered only when an account is
  connected, the flag is true and the record is present. An explicit disconnect and the
  wallet reporting zero accounts clear the account, the flag and the record in that very
  step. A position load that returns whitelist = false clears the flag in that very
  step, so that \<^verbatim>\<open>Your Investment\<close> is not rendered.
\<close>

theorem C2_position_rendered_only_when_whitelisted:
  assumes "exec P (boot P) es = Some w"
    and "i < length (pending v)" and "pending v ! i = loadLPData P a" and "\<not> isWL res"
  shows "(isWhitelisted (ui w) \<longrightarrow> lpData (ui w) \<noteq> None)
       \<and> (your_investment (render P (ui w)) \<noteq> None \<longrightarrow>
            truthy (account (ui w)) \<and> isWhitelisted (ui w) \<and> lpData (ui w) \<noteq> None)
       \<and> step P v DisconnectClick =
            (if truthy (account (ui v))
             then Some (v\<lparr>ui := (ui v)\<lparr>account := None, isWhitelisted := False, lpData := None\<rparr>\<rparr>)
             else None)
       \<and> step P v (AccountsChanged []) =
            (if hasWallet P
             then Some (v\<lparr>ui := (ui v)\<lparr>account := None, isWhitelisted := False, lpData := None\<rparr>\<rparr>)
             else None)
       \<and> (\<exists>v'. step P v (Answer i (LPReply (Inr res))) = Some v'
              \<and> \<not> isWhitelisted (ui v') \<and> account (ui v') = account (ui v)
              \<and> your_investment (render P (ui v')) = None)"
proof -
  have "page_ok position_inv w"
    using page_ok_boot assms(1) by (rule page_ok_exec)
  then have "isWhitelisted (ui w) \<longrightarrow> lpData (ui w) \<noteq> None"
    by (simp add: page_ok_def position_inv_def)
  moreover have "your_investment (render P (ui w)) \<noteq> None \<longrightarrow>
      truthy (account (ui w)) \<and> isWhitelisted (ui w) \<and> lpData (ui w) \<noteq> None"
    by (simp add: render_def split: option.splits if_splits)
  moreover have "step P v DisconnectClick =
      (if truthy (account (ui v))
       then Some (v\<lparr>ui := (ui v)\<lparr>account := None, isWhitelisted := False, lpData := None\<rparr>\<rparr>)
       else None)"
    by (simp add: render_def disconnectWallet_def setters)
  moreover have "step P v (AccountsChanged []) =
      (if hasWallet P
       then Some (v\<lparr>ui := (ui v)\<lparr>account := None, isWhitelisted := False, lpData := None\<rparr>\<rparr>)
       else None)"
    by (simp add: accountsChanged_def disconnectWallet_def setters)
  moreover have "\<exists>v'. step P v (Answer i (LPReply (Inr res))) = Some v'
      \<and> \<not> isWhitelisted (ui v') \<and> account (ui v') = account (ui v)
      \<and> your_investment (render P (ui v')) = None"
    using assms(2-4) by (simp add: loadLPData_def setters render_def split: option.splits)
  ultimately show ?thesis
    by blast
qed

theorem C2_witness:
  "exec exact_platform (boot exact_platform)
     (idle_events @ [AccountsChanged [alice], Answer 0 (LPReply (Inr alice_position))])
     = Some alice_page
   \<and> 0 < length (pending switched_page)
   \<and> pending switched_page ! 0 = loadLPData exact_platform bob
   \<and> \<not> isWL not_listed
   \<and> isWhitelisted (ui alice_page) \<and> lpData (ui alice_page) \<noteq> None
   \<and> your_investment (render exact_platform (ui alice_page)) \<noteq> None
   \<and> truthy (account (ui alice_page))
   \<and> step exact_platform switched_page DisconnectClick
       = Some (switched_page\<lparr>ui := (ui switched_page)\<lparr>account := None, isWhitelisted := False,
                                                        lpData := None\<rparr>\<rparr>)
   \<and> step exact_platform switched_page (AccountsChanged [])
       = Some (switched_page\<lparr>ui := (ui switched_page)\<lparr>account := None, isWhitelisted := False,
                                                        lpData := None\<rparr>\<rparr>)
   \<and> (\<exists>v'. step exact_platform switched_page (Answer 0 (LPReply (Inr not_listed))) = Some v'
          \<and> \<not> isWhitelisted (ui v') \<and> account (ui v') = account (ui switched_page)
          \<and> your_investment (render exact_platform (ui v')) = None)"
proof -
  have h1: "exec exact_platform (boot exact_platform)
     (idle_events @ [AccountsChanged [alice], Answer 0 (LPReply (Inr alice_position))])
     = Some alice_page"
    by (simp add: code setters examples Number_0 historyLoop_stop numbers)
  have h2: "0 < length (pending switched_page)"
    by (simp add: switched_page_def)
  have h3: "pending switched_page ! 0 = loadLPData exact_platform bob"
    by (simp add: switched_page_def)
  have h4: "\<not> isWL not_listed"
    by (simp add: not_listed_def)
  have w: "isWhitelisted (ui alice_page)"
    by (simp add: alice_page_def)
  have y: "your_investment (render exact_platform (ui alice_page)) \<noteq> None"
    by (simp add: alice_page_def alice_record_def alice_def render_def truthy_def)
  have t: "truthy (account (ui switched_page))" "hasWallet exact_platform"
    by (simp_all add: switched_page_def exact_platform_def bob_def truthy_def)
  show ?thesis
    using C2_position_rendered_only_when_whitelisted [OF h1 h2 h3 h4] h1 h2 h3 h4 w y t
    by simp
qed

subsection \<open>A chain switch that fails\<close>

text \<open>
  Claim C3, as stated, fails: on the idle page the user connects, the wallet grants
  alice's address, is on chain 1 and rejects the chain switch with code 4001; alice's
  position then loads. The account is published as connected and no error is set.
\<close>

theorem C3_counterexample:
  "exec exact_platform (boot exact_platform)
     (idle_events @ [ConnectClick, Answer 0 (AccountsReply (Inr [alice])),
                     Answer 0 (ChainIdReply (Inr 1)), Answer 0 (ChainReply (Inl user_rejected)),
                     Answer 0 (LPReply (Inr alice_position))])
   = Some \<lparr>ui = \<lparr>account = Some alice, isConnecting = False, isWhitelisted = True,
               fundData = Some loaded_fund, lpData = Some alice_record, navHistory = [],
               error = None, loading = False\<rparr>,
            console = [], pending = []\<rparr>"
  by (simp add: code setters examples Number_0 historyLoop_stop numbers views)

text \<open>
  Claim C3, amended. If, during a user-initiated connect, the chain-switch request fails
  for a reason other than error code 4902, the failure is absorbed by the inner
  \<^verbatim>\<open>catch\<close>: no error message is set, the state stays Connecting while the position of
  the granted account is read, and when that read resolves (either way) the account is
  published as connected, with no error.
\<close>

theorem C3_switch_failure_is_absorbed:
  assumes "hasWallet P" and "connect_clickable (render P (ui w))"
    and "chainId \<noteq> CONFIG_chainId" and "code switchError \<noteq> Some 4902"
  shows "\<exists>w1 w2.
           exec P w [ConnectClick,
                     Answer (length (pending w)) (AccountsReply (Inr (a # as))),
                     Answer (length (pending w)) (ChainIdReply (Inr chainId)),
                     Answer (length (pending w)) (ChainReply (Inl switchError))] = Some w1
         \<and> error (ui w1) = None \<and> isConnecting (ui w1) \<and> account (ui w1) = account (ui w)
         \<and> console w1 = console w
         \<and> pending w1 = pending w @ [connectWallet_publish P (a # as)]
         \<and> step P w1 (Answer (length (pending w)) (LPReply r)) = Some w2
         \<and> account (ui w2) = Some a \<and> \<not> isConnecting (ui w2) \<and> error (ui w2) = None
         \<and> pending w2 = pending w"
  using assms
  by (cases r)
     (simp_all add: connect_clickable_iff connectWallet_def connectWallet_publish_def
        loadLPData_def setters)

theorem C3_witness:
  "hasWallet exact_platform \<and> connect_clickable (render exact_platform (ui first_page))
   \<and> 1 \<noteq> CONFIG_chainId \<and> code user_rejected \<noteq> Some 4902
   \<and> (\<exists>w1 w2.
           exec exact_platform first_page
              [ConnectClick,
               Answer (length (pending first_page)) (AccountsReply (Inr (alice # []))),
               Answer (length (pending first_page)) (ChainIdReply (Inr 1)),
               Answer (length (pending first_page)) (ChainReply (Inl user_rejected))] = Some w1
         \<and> error (ui w1) = None \<and> isConnecting (ui w1) \<and> account (ui w1) = account (ui first_page)
         \<and> console w1 = console first_page
         \<and> pending w1 = pending first_page @ [connectWallet_publish exact_platform (alice # [])]
         \<and> step exact_platform w1 (Answer (length (pending first_page)) (LPReply (Inr alice_position)))
             = Some w2
         \<and> account (ui w2) = Some alice \<and> \<not> isConnecting (ui w2) \<and> error (ui w2) = None
         \<and> pending w2 = pending first_page)"
proof -
  have h1: "hasWallet exact_platform"
    by (simp add: exact_platform_def)
  have h2: "connect_clickable (render exact_platform (ui first_page))"
    by (simp add: first_page_def initial_state_def views)
  have h3: "1 \<noteq> CONFIG_chainId"
    by (simp add: CONFIG_chainId_def)
  have h4: "code user_rejected \<noteq> Some 4902"
    by (simp add: user_rejected_def)
  show ?thesis
    using h1 h2 h3 h4
      C3_switch_failure_is_absorbed [OF h1 h2 h3 h4, of alice "[]" "Inr alice_position"]
    by blast
qed

subsection \<open>Scaling the fixed-point values\<close>

text \<open>
  Claim C4. Every fixed-point value \<open>v\<close> received from the contract (current NAV, total
  supply, the NAV of every history point, share balance, position value, initial
  investment) is stored as \<open>v / 10\<^sup>1\<^sup>8\<close>, made a Number by one rounding, and the scaling is
  applied once: what is rendered is the stored value, formatted, with no second division
  by \<open>10\<^sup>1\<^sup>8\<close>.
\<close>

theorem C4_values_scaled_once:
  assumes "r_historyLength res = length recs" and "length recs \<le> 2 ^ 53" and "isWL lp"
  shows "(\<exists>w'. exec P (run_task (loadFundData P) w)
                 (Answer (length (pending w)) (FundReply (Inr res))
                  # map (\<lambda>r. Answer (length (pending w)) (NavReply (Inr r))) recs) = Some w'
           \<and> map_option currentNav (fundData (ui w')) = Some (fl P (of_nat (r_nav res) / 10 ^ 18))
           \<and> map_option totalShares (fundData (ui w')) = Some (fl P (of_nat (r_totalSupply res) / 10 ^ 18))
           \<and> map nav (navHistory (ui w')) = map (\<lambda>r. fl P (of_nat (rec_nav r) / 10 ^ 18)) recs
           \<and> nav_text (render P (ui w'))
               = Some (''$'' @ formatNumber (Some (fl P (of_nat (r_nav res) / 10 ^ 18))) 4)
           \<and> totalShares_text (render P (ui w'))
               = Some (formatNumber (Some (fl P (of_nat (r_totalSupply res) / 10 ^ 18))) 0))
       \<and> (\<exists>v'. exec P (run_task (loadLPData P a) v) [Answer (length (pending v)) (LPReply (Inr lp))] = Some v'
           \<and> map_option shares (lpData (ui v')) = Some (fl P (of_nat (balance lp) / 10 ^ 18))
           \<and> map_option lp_value (lpData (ui v')) = Some (fl P (of_nat (r_value lp) / 10 ^ 18))
           \<and> map_option initialInvestment (lpData (ui v'))
               = Some (fl P (of_nat (info_initialInvestment lp) / 10 ^ 18))
           \<and> map_option (yourShares_text \<circ> render_investment P) (lpData (ui v'))
               = Some (formatNumber (Some (fl P (of_nat (balance lp) / 10 ^ 18))) 0)
           \<and> map_option (currentValue_text \<circ> render_investment P) (lpData (ui v'))
               = Some (formatUSD P (Some (fl P (of_nat (r_value lp) / 10 ^ 18))))
           \<and> map_option (initialInvestment_text \<circ> render_investment P) (lpData (ui v'))
               = Some (formatUSD P (Some (fl P (of_nat (info_initialInvestment lp) / 10 ^ 18)))))"
proof -
  let ?w = "w\<lparr>ui := (ui w)\<lparr>loading := True,
                  fundData := Some \<lparr>name = r_name res,
                    description = r_description res,
                    currentNav = parseFloat P (formatEther (int (r_nav res))),
                    totalShares = parseFloat P (formatEther (int (r_totalSupply res))),
                    inceptionDate = Number P (int (r_inceptionDate res))\<rparr>\<rparr>\<rparr>"
  have n: "Number P (int (r_historyLength res)) = of_nat (0 + length recs)"
    using assms(1,2) by (simp add: Number_small)
  have fund: "exec P (run_task (loadFundData P) w)
                 (Answer (length (pending w)) (FundReply (Inr res))
                  # map (\<lambda>r. Answer (length (pending w)) (NavReply (Inr r))) recs)
              = exec P (run_task (historyLoop P 0 (Number P (int (r_historyLength res))) []) ?w)
                  (map (\<lambda>r. Answer (length (pending w)) (NavReply (Inr r))) recs)"
    by (simp add: loadFundData_def setters)
  have "\<exists>w'. exec P (run_task (loadFundData P) w)
                 (Answer (length (pending w)) (FundReply (Inr res))
                  # map (\<lambda>r. Answer (length (pending w)) (NavReply (Inr r))) recs) = Some w'
           \<and> map_option currentNav (fundData (ui w')) = Some (fl P (of_nat (r_nav res) / 10 ^ 18))
           \<and> map_option totalShares (fundData (ui w')) = Some (fl P (of_nat (r_totalSupply res) / 10 ^ 18))
           \<and> map nav (navHistory (ui w')) = map (\<lambda>r. fl P (of_nat (rec_nav r) / 10 ^ 18)) recs
           \<and> nav_text (render P (ui w'))
               = Some (''$'' @ formatNumber (Some (fl P (of_nat (r_nav res) / 10 ^ 18))) 4)
           \<and> totalShares_text (render P (ui w'))
               = Some (formatNumber (Some (fl P (of_nat (r_totalSupply res) / 10 ^ 18))) 0)"
    unfolding fund
    using historyLoop_run [OF n, of P "[]" ?w]
    by (simp add: parseFloat_def formatEther_def render_def comp_def)
  moreover have "\<exists>v'. exec P (run_task (loadLPData P a) v) [Answer (length (pending v)) (LPReply (Inr lp))] = Some v'
           \<and> map_option shares (lpData (ui v')) = Some (fl P (of_nat (balance lp) / 10 ^ 18))
           \<and> map_option lp_value (lpData (ui v')) = Some (fl P (of_nat (r_value lp) / 10 ^ 18))
           \<and> map_option initialInvestment (lpData (ui v'))
               = Some (fl P (of_nat (info_initialInvestment lp) / 10 ^ 18))
           \<and> map_option (yourShares_text \<circ> render_investment P) (lpData (ui v'))
               = Some (formatNumber (Some (fl P (of_nat (balance lp) / 10 ^ 18))) 0)
           \<and> map_option (currentValue_text \<circ> render_investment P) (lpData (ui v'))
               = Some (formatUSD P (Some (fl P (of_nat (r_value lp) / 10 ^ 18))))
           \<and> map_option (initialInvestment_text \<circ> render_investment P) (lpData (ui v'))
               = Some (formatUSD P (Some (fl P (of_nat (info_initialInvestment lp) / 10 ^ 18))))"
    using assms(3)
    by (simp add: loadLPData_def setters parseFloat_def formatEther_def render_investment_def)
  ultimately show ?thesis
    by blast
qed

theorem C4_witness:
  "r_historyLength history_fund_answer = length history_records
   \<and> length history_records \<le> 2 ^ 53 \<and> isWL alice_position
   \<and> (\<exists>w'. exec exact_platform (run_task (loadFundData exact_platform) first_page)
               (Answer (length (pending first_page)) (FundReply (Inr history_fund_answer))
                # map (\<lambda>r. Answer (length (pending first_page)) (NavReply (Inr r))) history_records)
              = Some w'
         \<and> map_option currentNav (fundData (ui w')) = Some (26 / 25)
         \<and> map_option totalShares (fundData (ui w')) = Some 5000
         \<and> map nav (navHistory (ui w')) = [1, 26 / 25]
         \<and> nav_text (render exact_platform (ui w')) = Some ''$1.0400''
         \<and> totalShares_text (render exact_platform (ui w')) = Some ''5,000'')
   \<and> (\<exists>v'. exec exact_platform (run_task (loadLPData exact_platform alice) first_page)
               [Answer (length (pending first_page)) (LPReply (Inr alice_position))] = Some v'
         \<and> map_option shares (lpData (ui v')) = Some 7
         \<and> map_option lp_value (lpData (ui v')) = Some (182 / 25)
         \<and> map_option initialInvestment (lpData (ui v')) = Some 7
         \<and> map_option (yourShares_text \<circ> render_investment exact_platform) (lpData (ui v')) = Some ''7''
         \<and> map_option (currentValue_text \<circ> render_investment exact_platform) (lpData (ui v'))
             = Some ''$7.28'')"
proof -
  have h1: "r_historyLength history_fund_answer = length history_records"
    by (simp add: history_fund_answer_def history_records_def)
  have h2: "length history_records \<le> 2 ^ 53"
    by (simp add: history_records_def)
  have h3: "isWL alice_position"
    by (simp add: alice_position_def)
  have f1: "formatNumber (Some (26 / 25)) 4 = ''1.0400''"
    by (rule formatNumber_near_104) simp_all
  have f2: "formatNumber (Some 5000) 0 = ''5,000''"
    by (subst formatNumber_eval [where n = 5000]) (simp_all add: floor_eq_iff format_eval)
  have f3: "formatNumber (Some 7) 0 = ''7''"
    by (subst formatNumber_eval [where n = 7]) (simp_all add: floor_eq_iff format_eval)
  have "formatNumber (Some (182 / 25)) 2 = ''7.28''"
    by (subst formatNumber_eval [where n = 728]) (simp_all add: floor_eq_iff format_eval)
  then have f4: "formatUSD exact_platform (Some (182 / 25)) = ''$7.28''"
    by (simp add: formatUSD_def)
  have v: "fl exact_platform (of_nat (r_nav history_fund_answer) / 10 ^ 18) = 26 / 25"
    "fl exact_platform (of_nat (r_totalSupply history_fund_answer) / 10 ^ 18) = 5000"
    "map (\<lambda>r. fl exact_platform (of_nat (rec_nav r) / 10 ^ 18)) history_records = [1, 26 / 25]"
    "fl exact_platform (of_nat (balance alice_position) / 10 ^ 18) = 7"
    "fl exact_platform (of_nat (r_value alice_position) / 10 ^ 18) = 182 / 25"
    "fl exact_platform (of_nat (info_initialInvestment alice_position) / 10 ^ 18) = 7"
    by (simp_all add: exact_platform_def history_fund_answer_def history_records_def
          alice_position_def)
  note T = C4_values_scaled_once [OF h1 h2 h3, of exact_platform first_page alice first_page]
  from T [THEN conjunct1] obtain w' where
    w1: "exec exact_platform (run_task (loadFundData exact_platform) first_page)
               (Answer (length (pending first_page)) (FundReply (Inr history_fund_answer))
                # map (\<lambda>r. Answer (length (pending first_page)) (NavReply (Inr r))) history_records)
              = Some w'"
    and w2: "map_option currentNav (fundData (ui w'))
              = Some (fl exact_platform (of_nat (r_nav history_fund_answer) / 10 ^ 18))"
    and w3: "map_option totalShares (fundData (ui w'))
              = Some (fl exact_platform (of_nat (r_totalSupply history_fund_answer) / 10 ^ 18))"
    and w4: "map nav (navHistory (ui w'))
              = map (\<lambda>r. fl exact_platform (of_nat (rec_nav r) / 10 ^ 18)) history_records"
    and w5: "nav_text (render exact_platform (ui w'))
              = Some (''$'' @ formatNumber
                   (Some (fl exact_platform (of_nat (r_nav history_fund_answer) / 10 ^ 18))) 4)"
    and w6: "totalShares_text (render exact_platform (ui w'))
              = Some (formatNumber
                   (Some (fl exact_platform (of_nat (r_totalSupply history_fund_answer) / 10 ^ 18))) 0)"
    by (elim exE conjE)
  from T [THEN conjunct2] obtain v' where
    v1: "exec exact_platform (run_task (loadLPData exact_platform alice) first_page)
               [Answer (length (pending first_page)) (LPReply (Inr alice_position))] = Some v'"
    and v2: "map_option shares (lpData (ui v'))
              = Some (fl exact_platform (of_nat (balance alice_position) / 10 ^ 18))"
    and v3: "map_option lp_value (lpData (ui v'))
              = Some (fl exact_platform (of_nat (r_value alice_position) / 10 ^ 18))"
    and v4: "map_option initialInvestment (lpData (ui v'))
              = Some (fl exact_platform (of_nat (info_initialInvestment alice_position) / 10 ^ 18))"
    and v5: "map_option (yourShares_text \<circ> render_investment exact_platform) (lpData (ui v'))
              = Some (formatNumber (Some (fl exact_platform (of_nat (balance alice_position) / 10 ^ 18))) 0)"
    and v6: "map_option (currentValue_text \<circ> render_investment exact_platform) (lpData (ui v'))
              = Some (formatUSD exact_platform
                   (Some (fl exact_platform (of_nat (r_value alice_position) / 10 ^ 18))))"
    by (elim exE conjE)
  have "\<exists>w'. exec exact_platform (run_task (loadFundData exact_platform) first_page)
               (Answer (length (pending first_page)) (FundReply (Inr history_fund_answer))
                # map (\<lambda>r. Answer (length (pending first_page)) (NavReply (Inr r))) history_records)
              = Some w'
         \<and> map_option currentNav (fundData (ui w')) = Some (26 / 25)
         \<and> map_option totalShares (fundData (ui w')) = Some 5000
         \<and> map nav (navHistory (ui w')) = [1, 26 / 25]
         \<and> nav_text (render exact_platform (ui w')) = Some ''$1.0400''
         \<and> totalShares_text (render exact_platform (ui w')) = Some ''5,000''"
    using w1 w2 w3 w4 w5 w6 unfolding v f1 f2
    by (intro exI [of _ w'] conjI) simp_all
  moreover have "\<exists>v'. exec exact_platform (run_task (loadLPData exact_platform alice) first_page)
               [Answer (length (pending first_page)) (LPReply (Inr alice_position))] = Some v'
         \<and> map_option shares (lpData (ui v')) = Some 7
         \<and> map_option lp_value (lpData (ui v')) = Some (182 / 25)
         \<and> map_option initialInvestment (lpData (ui v')) = Some 7
         \<and> map_option (yourShares_text \<circ> render_investment exact_platform) (lpData (ui v')) = Some ''7''
         \<and> map_option (currentValue_text \<circ> render_investment exact_platform) (lpData (ui v'))
             = Some ''$7.28''"
    using v1 v2 v3 v4 v5 v6 unfolding v f3 f4
    by (intro exI [of _ v'] conjI) simp_all
  ultimately show ?thesis
    using h1 h2 h3 by (intro conjI)
qed

subsection \<open>An address that is not whitelisted\<close>

text \<open>
  Claim C5. When the whitelist query of an address returns false, the resolution of
  \<^verbatim>\<open>loadLPData\<close> sets \<open>isWhitelisted\<close> to false and populates no field of the position
  (\<open>lpData\<close> is left as it was, so absent when it was absent), the section
  \<^verbatim>\<open>Your Investment\<close> is not rendered, and, the account being connected and the fund
  data loaded, the section \<^verbatim>\<open>Wallet Not Whitelisted\<close> is. This holds for a load started
  for an account already published, and for the load inside a user-initiated connect,
  which publishes the account when it resolves.
\<close>

theorem C5_not_whitelisted_path:
  assumes "\<not> isWL res" and "hasWallet P" and "connect_clickable (render P (ui v))" and "a \<noteq> []"
  shows "(\<exists>w'. exec P (run_task (loadLPData P a) w) [Answer (length (pending w)) (LPReply (Inr res))] = Some w'
            \<and> \<not> isWhitelisted (ui w') \<and> lpData (ui w') = lpData (ui w)
            \<and> account (ui w') = account (ui w) \<and> pending w' = pending w
            \<and> your_investment (render P (ui w')) = None
            \<and> not_whitelisted (render P (ui w'))
                = (if truthy (account (ui w)) \<and> \<not> loading (ui w)
                   then Some (shortenAddress (account (ui w))) else None))
       \<and> (\<exists>v'. exec P v [ConnectClick,
                          Answer (length (pending v)) (AccountsReply (Inr (a # as))),
                          Answer (length (pending v)) (ChainIdReply (Inr CONFIG_chainId)),
                          Answer (length (pending v)) (LPReply (Inr res))] = Some v'
            \<and> \<not> isWhitelisted (ui v') \<and> lpData (ui v') = lpData (ui v)
            \<and> account (ui v') = Some a \<and> pending v' = pending v
            \<and> your_investment (render P (ui v')) = None
            \<and> not_whitelisted (render P (ui v'))
                = (if loading (ui v) then None else Some (shortenAddress (Some a))))"
proof -
  have "\<exists>w'. exec P (run_task (loadLPData P a) w) [Answer (length (pending w)) (LPReply (Inr res))] = Some w'
            \<and> \<not> isWhitelisted (ui w') \<and> lpData (ui w') = lpData (ui w)
            \<and> account (ui w') = account (ui w) \<and> pending w' = pending w
            \<and> your_investment (render P (ui w')) = None
            \<and> not_whitelisted (render P (ui w'))
                = (if truthy (account (ui w)) \<and> \<not> loading (ui w)
                   then Some (shortenAddress (account (ui w))) else None)"
    using assms(1) by (simp add: loadLPData_def setters render_def split: option.splits)
  moreover have "\<exists>v'. exec P v [ConnectClick,
                          Answer (length (pending v)) (AccountsReply (Inr (a # as))),
                          Answer (length (pending v)) (ChainIdReply (Inr CONFIG_chainId)),
                          Answer (length (pending v)) (LPReply (Inr res))] = Some v'
            \<and> \<not> isWhitelisted (ui v') \<and> lpData (ui v') = lpData (ui v)
            \<and> account (ui v') = Some a \<and> pending v' = pending v
            \<and> your_investment (render P (ui v')) = None
            \<and> not_whitelisted (render P (ui v'))
                = (if loading (ui v) then None else Some (shortenAddress (Some a)))"
    using assms
    by (simp add: connect_clickable_iff connectWallet_def connectWallet_publish_def
          loadLPData_def setters render_def truthy_def split: option.splits)
  ultimately show ?thesis
    by (rule conjI)
qed

theorem C5_witness:
  "\<not> isWL not_listed \<and> hasWallet exact_platform
   \<and> connect_clickable (render exact_platform (ui first_page)) \<and> bob \<noteq> []
   \<and> (\<exists>w'. exec exact_platform (run_task (loadLPData exact_platform bob) bob_connected)
              [Answer (length (pending bob_connected)) (LPReply (Inr not_listed))] = Some w'
        \<and> \<not> isWhitelisted (ui w') \<and> lpData (ui w') = None
        \<and> your_investment (render exact_platform (ui w')) = None
        \<and> not_whitelisted (render exact_platform (ui w')) = Some ''0xABCD...BBBB'')
   \<and> (\<exists>v'. exec exact_platform first_page
              [ConnectClick,
               Answer (length (pending first_page)) (AccountsReply (Inr (bob # []))),
               Answer (length (pending first_page)) (ChainIdReply (Inr CONFIG_chainId)),
               Answer (length (pending first_page)) (LPReply (Inr not_listed))] = Some v'
        \<and> \<not> isWhitelisted (ui v') \<and> lpData (ui v') = None
        \<and> account (ui v') = Some bob
        \<and> your_investment (render exact_platform (ui v')) = None)"
proof -
  have h1: "\<not> isWL not_listed"
    by (simp add: not_listed_def)
  have h2: "hasWallet exact_platform"
    by (simp add: exact_platform_def)
  have h3: "connect_clickable (render exact_platform (ui first_page))"
    by (simp add: first_page_def initial_state_def views)
  have h4: "bob \<noteq> []"
    by (simp add: bob_def)
  note T = C5_not_whitelisted_path [OF h1 h2 h3 h4, of bob_connected "[]"]
  from T [THEN conjunct1] obtain w' where
    e: "exec exact_platform (run_task (loadLPData exact_platform bob) bob_connected)
          [Answer (length (pending bob_connected)) (LPReply (Inr not_listed))] = Some w'"
    and f: "\<not> isWhitelisted (ui w')"
    and d: "lpData (ui w') = lpData (ui bob_connected)"
    and y: "your_investment (render exact_platform (ui w')) = None"
    and n: "not_whitelisted (render exact_platform (ui w'))
             = (if truthy (account (ui bob_connected)) \<and> \<not> loading (ui bob_connected)
                then Some (shortenAddress (account (ui bob_connected))) else None)"
    by (elim exE conjE)
  from T [THEN conjunct2] obtain v' where
    e': "exec exact_platform first_page
              [ConnectClick,
               Answer (length (pending first_page)) (AccountsReply (Inr (bob # []))),
               Answer (length (pending first_page)) (ChainIdReply (Inr CONFIG_chainId)),
               Answer (length (pending first_page)) (LPReply (Inr not_listed))] = Some v'"
    and f': "\<not> isWhitelisted (ui v')"
    and d': "lpData (ui v') = lpData (ui first_page)"
    and a': "account (ui v') = Some bob"
    and y': "your_investment (render exact_platform (ui v')) = None"
    by (elim exE conjE)
  have "lpData (ui w') = None"
    using d by (simp add: bob_connected_def initial_state_def)
  moreover have "not_whitelisted (render exact_platform (ui w')) = Some ''0xABCD...BBBB''"
    using n by (simp add: bob_connected_def initial_state_def truthy_def bob_def shortenAddress_def)
  moreover have "lpData (ui v') = None"
    using d' by (simp add: first_page_def initial_state_def)
  ultimately show ?thesis
    using h1 h2 h3 h4 e f y e' f' a' y' by blast
qed

subsection \<open>A position load that fails\<close>

text \<open>
  Claim C6, as stated, fails: the user connects while the fund data are still loading,
  the wallet grants alice's address on the target chain, and the position reads fail.
  The account is connected, but no error message is set and \<open>loading\<close> is still true:
  the failure only reached the console.
\<close>

theorem C6_counterexample:
  "state_after exact_platform
     [Answer 1 (AccountsReply (Inr [])), ConnectClick, Answer 1 (AccountsReply (Inr [alice])),
      Answer 1 (ChainIdReply (Inr 84532)), Answer 1 (LPReply (Inl rpc_failure))]
   = Some \<lparr>account = Some alice, isConnecting = False, isWhitelisted = False,
            fundData = None, lpData = None, navHistory = [], error = None, loading = True\<rparr>
   \<and> console_after exact_platform
     [Answer 1 (AccountsReply (Inr [])), ConnectClick, Answer 1 (AccountsReply (Inr [alice])),
      Answer 1 (ChainIdReply (Inr 84532)), Answer 1 (LPReply (Inl rpc_failure))]
   = Some [''Error loading LP data:'']"
  by (simp add: observations code setters examples views)

text \<open>
  Claim C6, amended. A failure inside \<^verbatim>\<open>loadLPData\<close> never propagates and never blocks
  the connection: the account still becomes connected, with the position and the
  whitelist flag as they were. The failure is only written to the console: no error
  message is set and \<open>loading\<close> is not changed. On any page, a failed position load
  changes nothing but the console.
\<close>

theorem C6_position_failure_is_only_logged:
  assumes "hasWallet P" and "connect_clickable (render P (ui w))"
  shows "(\<exists>w'. exec P w [ConnectClick,
                     Answer (length (pending w)) (AccountsReply (Inr (a # as))),
                     Answer (length (pending w)) (ChainIdReply (Inr CONFIG_chainId)),
                     Answer (length (pending w)) (LPReply (Inl err))] = Some w'
           \<and> account (ui w') = Some a \<and> \<not> isConnecting (ui w') \<and> error (ui w') = None
           \<and> loading (ui w') = loading (ui w) \<and> lpData (ui w') = lpData (ui w)
           \<and> isWhitelisted (ui w') = isWhitelisted (ui w)
           \<and> console w' = console w @ [''Error loading LP data:'']
           \<and> pending w' = pending w)
       \<and> exec P (run_task (loadLPData P b) v) [Answer (length (pending v)) (LPReply (Inl err))]
           = Some (v\<lparr>console := console v @ [''Error loading LP data:'']\<rparr>)"
  using assms
  by (simp add: connect_clickable_iff connectWallet_def connectWallet_publish_def
        loadLPData_def setters)

theorem C6_witness:
  "hasWallet exact_platform \<and> connect_clickable (render exact_platform (ui first_page))
   \<and> (\<exists>w'. exec exact_platform first_page
               [ConnectClick,
                Answer (length (pending first_page)) (AccountsReply (Inr (alice # []))),
                Answer (length (pending first_page)) (ChainIdReply (Inr CONFIG_chainId)),
                Answer (length (pending first_page)) (LPReply (Inl rpc_failure))] = Some w'
           \<and> account (ui w') = Some alice \<and> \<not> isConnecting (ui w') \<and> error (ui w') = None
           \<and> loading (ui w') = loading (ui first_page) \<and> lpData (ui w') = lpData (ui first_page)
           \<and> isWhitelisted (ui w') = isWhitelisted (ui first_page)
           \<and> console w' = console first_page @ [''Error loading LP data:'']
           \<and> pending w' = pending first_page)
   \<and> exec exact_platform (run_task (loadLPData exact_platform bob) bob_connected)
        [Answer (length (pending bob_connected)) (LPReply (Inl rpc_failure))]
       = Some (bob_connected\<lparr>console := console bob_connected @ [''Error loading LP data:'']\<rparr>)"
proof -
  have h1: "hasWallet exact_platform"
    by (simp add: exact_platform_def)
  have h2: "connect_clickable (render exact_platform (ui first_page))"
    by (simp add: first_page_def initial_state_def views)
  show ?thesis
    using h1 h2
      C6_position_failure_is_only_logged [OF h1 h2, of alice "[]" rpc_failure bob bob_connected]
    by blast
qed

subsection \<open>Overlapping position loads\<close>

text \<open>
  Claim C7, as stated, fails: on the idle page the wallet switches to alice and then to
  bob before alice's reads have resolved; bob's reads resolve first, alice's last. The
  connected account is bob and the position record committed to the state is alice's.
\<close>

theorem C7_counterexample:
  "exec exact_platform (boot exact_platform)
     (idle_events @ [AccountsChanged [alice], AccountsChanged [bob],
                     Answer 1 (LPReply (Inr bob_position)), Answer 0 (LPReply (Inr alice_position))])
   = Some \<lparr>ui = \<lparr>account = Some bob, isConnecting = False, isWhitelisted = True,
               fundData = Some loaded_fund, lpData = Some alice_record, navHistory = [],
               error = None, loading = False\<rparr>,
            console = [], pending = []\<rparr>"
  by (simp add: code setters examples Number_0 historyLoop_stop numbers)

text \<open>
  Claim C7, amended. Overlapping position loads are neither cancelled nor guarded: when
  the reads of a pending \<^verbatim>\<open>loadLPData(a)\<close> resolve, the result is committed whatever the
  connected account is at that moment (\<open>a\<close> is not compared with it): the whitelist flag
  becomes the one read for \<open>a\<close> and, if it is true, the position record becomes the one
  read for \<open>a\<close>; the account is left as it is.
\<close>

theorem C7_every_resolved_load_is_committed:
  assumes "i < length (pending w)" and "pending w ! i = loadLPData P a"
  shows "\<exists>w'. step P w (Answer i (LPReply (Inr res))) = Some w'
          \<and> account (ui w') = account (ui w)
          \<and> isWhitelisted (ui w') = isWL res
          \<and> lpData (ui w') =
              (if isWL res then
                 Some \<lparr>shares = parseFloat P (formatEther (int (balance res))),
                       lp_value = parseFloat P (formatEther (int (r_value res))),
                       initialInvestment = parseFloat P (formatEther (int (info_initialInvestment res))),
                       returnRate = js_div P (Number P (r_returnRate res)) 100,
                       investmentDate = Number P (int (info_investmentDate res))\<rparr>
               else lpData (ui w))"
  using assms
  by (simp add: loadLPData_def setters)

theorem C7_witness:
  "0 < length (pending racing_page) \<and> pending racing_page ! 0 = loadLPData exact_platform alice
   \<and> account (ui racing_page) = Some bob
   \<and> (\<exists>w'. step exact_platform racing_page (Answer 0 (LPReply (Inr alice_position))) = Some w'
          \<and> account (ui w') = Some bob
          \<and> isWhitelisted (ui w')
          \<and> lpData (ui w') = Some alice_record)"
proof -
  have h1: "0 < length (pending racing_page)"
    by (simp add: racing_page_def)
  have h2: "pending racing_page ! 0 = loadLPData exact_platform alice"
    by (simp add: racing_page_def)
  have b: "account (ui racing_page) = Some bob"
    by (simp add: racing_page_def)
  from C7_every_resolved_load_is_committed [OF h1 h2, of alice_position]
  obtain w' where
    s: "step exact_platform racing_page (Answer 0 (LPReply (Inr alice_position))) = Some w'"
    and a: "account (ui w') = account (ui racing_page)"
    and f: "isWhitelisted (ui w') = isWL alice_position"
    and d: "lpData (ui w') =
              (if isWL alice_position then
                 Some \<lparr>shares = parseFloat exact_platform (formatEther (int (balance alice_position))),
                       lp_value = parseFloat exact_platform (formatEther (int (r_value alice_position))),
                       initialInvestment =
                         parseFloat exact_platform (formatEther (int (info_initialInvestment alice_position))),
                       returnRate = js_div exact_platform (Number exact_platform (r_returnRate alice_position)) 100,
                       investmentDate = Number exact_platform (int (info_investmentDate alice_position))\<rparr>
               else lpData (ui racing_page))"
    by blast
  have "isWhitelisted (ui w')"
    using f by (simp add: alice_position_def)
  moreover have "lpData (ui w') = Some alice_record"
    using d by (simp add: alice_position_def alice_record_def exact_platform_def numbers)
  ultimately show ?thesis
    using h1 h2 b s a by simp
qed

subsection \<open>Scenario A\<close>

text \<open>
  Claim C8. For the fixed-point value 1040000000000000000 the stored current NAV is the
  Number 1.04, the NAV card shows \<^verbatim>\<open>$1.0400\<close>, and the return since inception, computed
  as \<^verbatim>\<open>(currentNav - 1) * 100\<close> with a leading \<^verbatim>\<open>+\<close> when the NAV is at least 1, shows
  \<^verbatim>\<open>+4.00%\<close>. This holds for every accurate rounding of the subtraction, of the
  multiplication and of \<^verbatim>\<open>parseFloat\<close>.
\<close>

theorem C8_scenario_A:
  assumes "accurate P" and "r_nav res = 1040000000000000000" and "r_historyLength res = 0"
  shows "\<exists>w'. exec P (run_task (loadFundData P) w) [Answer (length (pending w)) (FundReply (Inr res))] = Some w'
           \<and> map_option currentNav (fundData (ui w')) = Some (fl P (104 / 100))
           \<and> nav_text (render P (ui w')) = Some ''$1.0400''
           \<and> sinceInception_text (render P (ui w')) = Some ''+4.00% since inception''"
proof -
  note n = scenario_A_numbers [OF assms(1)]
  have "formatNumber (Some (parseFloat P (formatEther 1040000000000000000))) 4 = ''1.0400''"
    using n(1,2) by (rule formatNumber_near_104)
  moreover have "formatNumber
      (Some (js_mul P (js_sub P (parseFloat P (formatEther 1040000000000000000)) 1) 100)) 2 = ''4.00''"
    using n(4,5) by (rule formatNumber_near_4)
  moreover have "parseFloat P (formatEther 1040000000000000000) = fl P (104 / 100)"
    by (simp add: parseFloat_def formatEther_def)
  ultimately show ?thesis
    using assms(2,3) n(3)
    by (simp add: loadFundData_def Number_0 historyLoop_stop setters render_def sinceInception_def)
qed

theorem C8_witness:
  "accurate exact_platform \<and> r_nav fund_answer = 1040000000000000000
   \<and> r_historyLength fund_answer = 0
   \<and> (\<exists>w'. exec exact_platform (run_task (loadFundData exact_platform) first_page)
               [Answer (length (pending first_page)) (FundReply (Inr fund_answer))] = Some w'
         \<and> map_option currentNav (fundData (ui w')) = Some (104 / 100)
         \<and> nav_text (render exact_platform (ui w')) = Some ''$1.0400''
         \<and> sinceInception_text (render exact_platform (ui w')) = Some ''+4.00% since inception'')"
proof -
  have h1: "accurate exact_platform"
    by (simp add: accurate_def exact_platform_def)
  have h2: "r_nav fund_answer = 1040000000000000000"
    by (simp add: fund_answer_def)
  have h3: "r_historyLength fund_answer = 0"
    by (simp add: fund_answer_def)
  have v: "fl exact_platform (104 / 100) = 104 / 100"
    by (simp add: exact_platform_def)
  show ?thesis
    using h1 h2 h3 C8_scenario_A [OF h1 h2 h3, of first_page]
    unfolding v
    by blast
qed

subsection \<open>An empty history and the chart\<close>

text \<open>
  Claim C9. When \<^verbatim>\<open>getNavHistoryLength\<close> returns 0, \<^verbatim>\<open>loadFundData\<close> ends with an empty
  \<open>navHistory\<close> (no history read is issued, loading is over, no chart is rendered), and the
  chart is rendered exactly when loading is over and \<open>navHistory\<close> has more than one
  element, so never for the lengths 0 and 1.
\<close>

theorem C9_empty_history_no_chart:
  assumes "r_historyLength res = 0"
  shows "(\<exists>w'. exec P (run_task (loadFundData P) w) [Answer (length (pending w)) (FundReply (Inr res))] = Some w'
            \<and> navHistory (ui w') = [] \<and> \<not> loading (ui w') \<and> pending w' = pending w
            \<and> chart (render P (ui w')) = None)
         \<and> (chart (render P s) \<noteq> None) = (\<not> loading s \<and> 1 < length (navHistory s))"
  using assms
  by (simp add: loadFundData_def Number_0 historyLoop.simps[of P 0 0] setters render_def)

theorem C9_witness:
  "r_historyLength fund_answer = 0
   \<and> (\<exists>w'. exec exact_platform (run_task (loadFundData exact_platform) first_page)
              [Answer (length (pending first_page)) (FundReply (Inr fund_answer))] = Some w'
         \<and> navHistory (ui w') = [] \<and> \<not> loading (ui w') \<and> pending w' = pending first_page
         \<and> chart (render exact_platform (ui w')) = None)
   \<and> (chart (render exact_platform initial_state) \<noteq> None)
       = (\<not> loading initial_state \<and> 1 < length (navHistory initial_state))"
proof -
  have h: "r_historyLength fund_answer = 0"
    by (simp add: fund_answer_def)
  show ?thesis
    using h C9_empty_history_no_chart [OF h, of exact_platform first_page initial_state]
    by blast
qed

subsection \<open>A wallet that grants no account\<close>

text \<open>
  Claim C10. If \<^verbatim>\<open>eth_requestAccounts\<close> resolves with an empty list, \<^verbatim>\<open>connectWallet\<close>
  returns with \<open>isConnecting\<close> still true and no error set: no account is published, the
  computation has ended (nothing of it is left pending that could reset the flag), the
  error banner is absent and the header button stays disabled with the label
  \<^verbatim>\<open>Connecting...\<close>.
\<close>

theorem C10_empty_accounts_stay_connecting:
  assumes "hasWallet P" and "connect_clickable (render P (ui w))"
  shows "\<exists>w'. exec P w [ConnectClick, Answer (length (pending w)) (AccountsReply (Inr []))] = Some w'
            \<and> isConnecting (ui w') \<and> error (ui w') = None \<and> account (ui w') = account (ui w)
            \<and> pending w' = pending w \<and> console w' = console w
            \<and> error_banner (render P (ui w')) = None
            \<and> connect_button (render P (ui w')) = Some (''Connecting...'', True)"
proof -
  have "\<not> truthy (account (ui w))"
    using assms(2) by (simp add: connect_clickable_iff)
  then show ?thesis
    using assms by (simp add: connectWallet_def setters render_def truthy_def)
qed

theorem C10_witness:
  "hasWallet exact_platform \<and> connect_clickable (render exact_platform (ui first_page))
   \<and> (\<exists>w'. exec exact_platform first_page
              [ConnectClick, Answer (length (pending first_page)) (AccountsReply (Inr []))] = Some w'
        \<and> isConnecting (ui w') \<and> error (ui w') = None \<and> account (ui w') = account (ui first_page)
        \<and> pending w' = pending first_page \<and> console w' = console first_page
        \<and> error_banner (render exact_platform (ui w')) = None
        \<and> connect_button (render exact_platform (ui w')) = Some (''Connecting...'', True))"
proof -
  have h1: "hasWallet exact_platform"
    by (simp add: exact_platform_def)
  have h2: "connect_clickable (render exact_platform (ui first_page))"
    by (simp add: first_page_def initial_state_def views)
  show ?thesis
    using h1 h2 C10_empty_accounts_stay_connecting [OF h1 h2]
    by blast
qed

end
